theory Spec2Isabelle
  imports Complex_Main "HOL-Library.State_Monad"
begin

section \<open>Converging-diverging nozzles: \<^verbatim>\<open>aerokit/instance/nozzle.py\<close>\<close>

text \<open>
  The module computes the regime thresholds of a nozzle from its exit/throat area ratio,
  the exit Mach number for a given nozzle pressure ratio (NPR), and the Mach, static
  pressure and total pressure along a section law.

  Conventions of the embedding.
  \<^item> Every float of the source is a \<^typ>\<open>real\<close>; a numpy array is a \<^typ>\<open>real list\<close>
    and an elementwise operation is a \<^const>\<open>map\<close>. \<^verbatim>\<open>inf\<close> and \<^verbatim>\<open>nan\<close> have no
    counterpart: where numpy divides by a zero scalar (it warns and yields \<^verbatim>\<open>inf\<close> or
    \<^verbatim>\<open>nan\<close>) the model has HOL's \<open>x / 0 = 0\<close>, and every statement below that
    depends on the value of such a quotient assumes the denominator is not zero.
  \<^item> Arithmetic is exact, except where the rounding decides a statement: the area
    ratios of the constructor (lines 160 to 165) are also given with the rounding of
    every operation explicit (\<open>section_ratios\<close>, with \<open>fl64\<close> for binary64).
  \<^item> The isentropic, mass-flow and shock-wave relations (\<^verbatim>\<open>aerokit.aero.Isentropic\<close>,
    \<^verbatim>\<open>MassFlow\<close>, \<^verbatim>\<open>ShockWave\<close>) are not part of the sources at hand. They are a
    parameter of every definition: a record \<open>relations\<close> of total functions, each taking
    its value argument(s) and the specific heat ratio.
  \<^item> The default gas (\<^verbatim>\<open>aerokit.common.defaultgas\<close>) is a parameter too: \<open>dg\<close> is the
    value of \<^verbatim>\<open>defg._gamma\<close>. A call of a relation that passes no \<^verbatim>\<open>gamma\<close> gets \<open>dg\<close>
    (the module's note: gamma "is defined only using aerokit.common.defaultgas"). For the
    threshold function the default gas is also given as a state that the function
    reads (\<open>NPR_Ms_list_defg\<close>).
  \<^item> An exception is a value: functions that can raise return \<open>py_error + 'a\<close>.
\<close>

subsection \<open>Errors\<close>

datatype py_error = IndexError | ValueError | ZeroDivisionError | AttributeError

subsection \<open>The relations the module imports\<close>

text \<open>
  \<^verbatim>\<open>Is.PtPs_Mach\<close>, \<^verbatim>\<open>Is.Mach_PtPs\<close>; \<^verbatim>\<open>mf.Sigma_Mach\<close>, \<^verbatim>\<open>mf.MachSub_Sigma\<close>,
  \<^verbatim>\<open>mf.MachSup_Sigma\<close>; \<^verbatim>\<open>sw.downstream_Mn\<close>, \<^verbatim>\<open>sw.Pi_ratio\<close>, \<^verbatim>\<open>sw.Mn_Pi_ratio\<close>,
  \<^verbatim>\<open>sw.downstreamMach_Mach_ShockPsratio\<close>. The last argument of each field is gamma.
\<close>

record relations =
  PtPs_Mach :: "real \<Rightarrow> real \<Rightarrow> real"
  Mach_PtPs :: "real \<Rightarrow> real \<Rightarrow> real"
  Sigma_Mach :: "real \<Rightarrow> real \<Rightarrow> real"
  MachSub_Sigma :: "real \<Rightarrow> real \<Rightarrow> real"
  MachSup_Sigma :: "real \<Rightarrow> real \<Rightarrow> real"
  downstream_Mn :: "real \<Rightarrow> real \<Rightarrow> real"
  Pi_ratio :: "real \<Rightarrow> real \<Rightarrow> real"
  Mn_Pi_ratio :: "real \<Rightarrow> real \<Rightarrow> real"
  downstreamMach_Mach_ShockPsratio :: "real \<Rightarrow> real \<Rightarrow> real \<Rightarrow> real"

subsection \<open>NPR thresholds from the area ratio\<close>

definition NPR_choked_subsonic :: "relations \<Rightarrow> real \<Rightarrow> real \<Rightarrow> real" where
  "NPR_choked_subsonic L dg AsAc = PtPs_Mach L (MachSub_Sigma L AsAc dg) dg"

definition NPR_choked_supersonic :: "relations \<Rightarrow> real \<Rightarrow> real \<Rightarrow> real" where
  "NPR_choked_supersonic L dg AsAc = PtPs_Mach L (MachSup_Sigma L AsAc dg) dg"

definition NPR_shock_at_exit :: "relations \<Rightarrow> real \<Rightarrow> real \<Rightarrow> real" where
  "NPR_shock_at_exit L dg AsAc =
    (let Msup = MachSup_Sigma L AsAc dg;
         Msh = downstream_Mn L Msup dg
     in PtPs_Mach L Msh dg / Pi_ratio L Msup dg)"

text \<open>\<^verbatim>\<open>_NPR_Ms_list\<close> (an Isabelle name cannot start with an underscore).\<close>

definition NPR_Ms_list ::
  "relations \<Rightarrow> real \<Rightarrow> real \<Rightarrow> real \<times> real \<times> real \<times> real \<times> real \<times> real" where
  "NPR_Ms_list L dg AsAc =
    (let Msub = MachSub_Sigma L AsAc dg;
         NPR0 = PtPs_Mach L Msub dg;
         Msup = MachSup_Sigma L AsAc dg;
         Msh = downstream_Mn L Msup dg;
         NPRsw = PtPs_Mach L Msh dg / Pi_ratio L Msup dg;
         NPR1 = PtPs_Mach L Msup dg
     in (NPR0, NPRsw, NPR1, Msub, Msh, Msup))"

subsection \<open>The default gas as state\<close>

text \<open>
  The state of \<^verbatim>\<open>aerokit.common.defaultgas\<close>: the current gamma, which every relation
  called without \<^verbatim>\<open>gamma\<close> reads, and the value kept by \<^verbatim>\<open>save_default\<close>.
\<close>

record defaultgas =
  defg_gamma :: real
  defg_saved :: real

text \<open>
  Modelled from the spec: \<^verbatim>\<open>defg.save_default()\<close> and \<^verbatim>\<open>defg.restore_default()\<close> are not
  in the sources at hand; the spec describes the pair as saving the current gas and
  restoring it.
\<close>

definition save_default :: "(defaultgas, unit) state" where
  "save_default = State_Monad.update (\<lambda>s. s\<lparr>defg_saved := defg_gamma s\<rparr>)"

definition restore_default :: "(defaultgas, unit) state" where
  "restore_default = State_Monad.update (\<lambda>s. s\<lparr>defg_gamma := defg_saved s\<rparr>)"

text \<open>A relation called without \<^verbatim>\<open>gamma\<close>: it reads the default gas and changes nothing.\<close>

definition call_default :: "(real \<Rightarrow> real \<Rightarrow> real) \<Rightarrow> real \<Rightarrow> (defaultgas, real) state" where
  "call_default f v = do {
     s \<leftarrow> State_Monad.get;
     State_Monad.return (f v (defg_gamma s))
   }"

text \<open>
  \<^verbatim>\<open>_NPR_Ms_list\<close>, lines 75 to 81, statement by statement over that state. In line 79
  the left operand of the division is evaluated first.
\<close>

definition NPR_Ms_list_defg ::
  "relations \<Rightarrow> real \<Rightarrow> (defaultgas, real \<times> real \<times> real \<times> real \<times> real \<times> real) state" where
  "NPR_Ms_list_defg L AsAc = do {
     Msub \<leftarrow> call_default (MachSub_Sigma L) AsAc;
     NPR0 \<leftarrow> call_default (PtPs_Mach L) Msub;
     Msup \<leftarrow> call_default (MachSup_Sigma L) AsAc;
     Msh \<leftarrow> call_default (downstream_Mn L) Msup;
     p \<leftarrow> call_default (PtPs_Mach L) Msh;
     q \<leftarrow> call_default (Pi_ratio L) Msup;
     let NPRsw = p / q;
     NPR1 \<leftarrow> call_default (PtPs_Mach L) Msup;
     State_Monad.return (NPR0, NPRsw, NPR1, Msub, Msh, Msup)
   }"

subsection \<open>Exit Mach number\<close>

text \<open>
  In the last branch \<^verbatim>\<open>gmu\<close> is a Python float, so \<^verbatim>\<open>(defg._gamma+1.)/2/gmu\<close> raises
  ZeroDivisionError when gamma is 1. The power \<^verbatim>\<open>**\<close> has a positive base for every
  gamma above -1 and is \<^const>\<open>powr\<close> there. \<^verbatim>\<open>NPR/AsAc\<close> with \<^verbatim>\<open>AsAc\<close> equal to 0
  raises as well when \<^verbatim>\<open>AsAc\<close> is a Python float and yields \<^verbatim>\<open>inf\<close> when it is a numpy
  scalar (as from \<^verbatim>\<open>set_NPR\<close>); the model has no branch for it, and the statements on
  the closed form are for \<^verbatim>\<open>AsAc\<close> above 1.
\<close>

definition Ms_from_AsAc_NPR :: "relations \<Rightarrow> real \<Rightarrow> real \<Rightarrow> real \<Rightarrow> py_error + real" where
  "Ms_from_AsAc_NPR L dg AsAc NPR =
    (case NPR_Ms_list L dg AsAc of (NPR0, NPRsw, NPR1, Msub, Msh, Msup) \<Rightarrow>
      if NPR < NPR0 then Inr (Mach_PtPs L NPR dg)
      else if NPR > NPRsw then Inr Msup
      else
        let gmu = dg - 1 in
        if gmu = 0 then Inl ZeroDivisionError
        else
          let K = NPR / AsAc / ((dg + 1) / 2) powr ((dg + 1) / 2 / gmu);
              Ms = sqrt ((sqrt (1 + 2 * gmu * K * K) - 1) / gmu)
          in Inr Ms)"

definition Madapt_from_AsAc_NPR :: "relations \<Rightarrow> real \<Rightarrow> real \<Rightarrow> real \<Rightarrow> py_error + real" where
  "Madapt_from_AsAc_NPR L dg AsAc NPR =
    (case NPR_Ms_list L dg AsAc of (NPR0, NPRsw, NPR1, Msub, Msh, Msup) \<Rightarrow>
      if NPR < NPR0 then Inr (Mach_PtPs L NPR dg)
      else if NPR > NPR1 then Inr (Mach_PtPs L NPR dg)
      else if NPR > NPRsw then Inr (downstreamMach_Mach_ShockPsratio L Msup (NPR1 / NPR) dg)
      else
        let gmu = dg - 1 in
        if gmu = 0 then Inl ZeroDivisionError
        else
          let K = NPR / AsAc / ((dg + 1) / 2) powr ((dg + 1) / 2 / gmu);
              Ms = sqrt ((sqrt (1 + 2 * gmu * K * K) - 1) / gmu)
          in Inr Ms)"

subsection \<open>The nozzle class\<close>

text \<open>
  The attributes of a \<^verbatim>\<open>nozzle\<close> object. \<^verbatim>\<open>_Pt\<close>, \<^verbatim>\<open>_M\<close> and \<^verbatim>\<open>_Ps\<close> exist only
  once \<^verbatim>\<open>set_NPR\<close> has assigned them: \<^const>\<open>None\<close> is the attribute that is not there.
\<close>

record nozzle =
  nz_gamma :: real
  nz_x :: "real list"
  nz_AsoAc :: real
  nz_AxoAc :: "real list"
  nz_ithroat :: nat
  nz_NPR0 :: real
  nz_NPRsw :: real
  nz_NPR1 :: real
  nz_Msub :: real
  nz_Msh :: real
  nz_Msup :: real
  nz_ref_rttot :: real
  nz_scale_ps :: real
  nz_Pt :: "real list option"
  nz_M :: "real list option"
  nz_Ps :: "real list option"

text \<open>Python's truth value of an optional number: \<^verbatim>\<open>None\<close> and \<^verbatim>\<open>0\<close> are false.\<close>

fun truthy :: "real option \<Rightarrow> bool" where
  "truthy None = False"
| "truthy (Some v) = (v \<noteq> 0)"

text \<open>
  \<^verbatim>\<open>ndarray.argmin()\<close>: the index of the first occurrence of the minimum; ValueError on
  an empty array.
\<close>

fun first_index :: "real \<Rightarrow> real list \<Rightarrow> nat" where
  "first_index v [] = 0"
| "first_index v (y # ys) = (if y = v then 0 else Suc (first_index v ys))"

definition argmin :: "real list \<Rightarrow> py_error + nat" where
  "argmin xs = (if xs = [] then Inl ValueError else Inr (first_index (min_list xs) xs))"

text \<open>
  Lines 187 to 189 of \<^verbatim>\<open>set_NPR\<close>: an array of ones, whose slice \<^verbatim>\<open>[:ithroat+1]\<close> is
  assigned the subsonic branch and whose slice \<^verbatim>\<open>[ithroat+1:]\<close> the supersonic branch
  (numpy clips a slice bound beyond the end, as \<^const>\<open>take\<close> and \<^const>\<open>drop\<close> do).
\<close>

definition choked_field :: "relations \<Rightarrow> nozzle \<Rightarrow> real list" where
  "choked_field L n =
    (let k = nz_ithroat n + 1;
         M0 = map (\<lambda>_. 1) (nz_AxoAc n);
         M1 = map (\<lambda>a. MachSub_Sigma L a (nz_gamma n)) (take k (nz_AxoAc n)) @ drop k M0;
         M2 = take k M1 @ map (\<lambda>a. MachSup_Sigma L a (nz_gamma n)) (drop k (nz_AxoAc n))
     in M2)"

text \<open>
  \<^verbatim>\<open>set_NPR\<close> assigns \<^verbatim>\<open>_Pt\<close>, \<^verbatim>\<open>_M\<close> and \<^verbatim>\<open>_Ps\<close> and returns nothing: the model returns
  the updated object. It can raise through \<^verbatim>\<open>Ms_from_AsAc_NPR\<close> and through \<^verbatim>\<open>argmin\<close>;
  the object is then left with \<^verbatim>\<open>_Pt\<close> and \<^verbatim>\<open>_M\<close> already assigned, and the model
  returns the error alone.
\<close>

definition set_NPR :: "relations \<Rightarrow> real \<Rightarrow> nozzle \<Rightarrow> real \<Rightarrow> py_error + nozzle" where
  "set_NPR L dg n NPR =
    (let Pt = map (\<lambda>_. 1) (nz_AxoAc n) in
     if NPR < nz_NPR0 n then
       let Ms = Mach_PtPs L NPR (nz_gamma n);
           M = map (\<lambda>a. MachSub_Sigma L (a / nz_AsoAc n * Sigma_Mach L Ms dg) (nz_gamma n))
                 (nz_AxoAc n);
           Ps = map2 (\<lambda>p m. p / PtPs_Mach L m (nz_gamma n)) Pt M
       in Inr (n\<lparr>nz_Pt := Some Pt, nz_M := Some M, nz_Ps := Some Ps\<rparr>)
     else
       let M = choked_field L n in
       if NPR < nz_NPRsw n then
         (case Ms_from_AsAc_NPR L dg (nz_AsoAc n) NPR of
            Inl e \<Rightarrow> Inl e
          | Inr Ms \<Rightarrow>
              let Ptloss = PtPs_Mach L Ms dg / NPR;
                  Msh = Mn_Pi_ratio L Ptloss dg
              in (case argmin (map (\<lambda>m. \<bar>m - Msh\<bar>) M) of
                    Inl e \<Rightarrow> Inl e
                  | Inr ish \<Rightarrow>
                      let M' = take ish M @
                                 map (\<lambda>a. MachSub_Sigma L (a * Sigma_Mach L Ms dg / nz_AsoAc n) dg)
                                   (drop ish (nz_AxoAc n));
                          Pt' = take ish Pt @ replicate (length Pt - ish) Ptloss;
                          Ps = map2 (\<lambda>p m. p / PtPs_Mach L m dg) Pt' M'
                      in Inr (n\<lparr>nz_Pt := Some Pt', nz_M := Some M', nz_Ps := Some Ps\<rparr>)))
       else
         let Ps = map2 (\<lambda>p m. p / PtPs_Mach L m dg) Pt M
         in Inr (n\<lparr>nz_Pt := Some Pt, nz_M := Some M, nz_Ps := Some Ps\<rparr>))"

text \<open>
  \<^verbatim>\<open>nozzle.__init__(x, section, AsoAc, gamma, NPR, ref_rttot, scale_ps)\<close>; the source's
  defaults are \<^verbatim>\<open>AsoAc=None\<close>, \<^verbatim>\<open>gamma=1.4\<close>, \<^verbatim>\<open>NPR=None\<close>, \<^verbatim>\<open>ref_rttot=1.\<close>,
  \<^verbatim>\<open>scale_ps=1.\<close>. \<^verbatim>\<open>section[-1]\<close> raises IndexError on an empty array.
  \<^verbatim>\<open>defg.save_default()\<close> and \<^verbatim>\<open>defg.restore_default()\<close> bracket lines 167 to 171, none
  of which assigns the default gas: \<open>dg\<close> is the same before, between and after.
\<close>

definition nozzle_init ::
  "relations \<Rightarrow> real \<Rightarrow> real list \<Rightarrow> real list \<Rightarrow> real option \<Rightarrow> real \<Rightarrow> real option \<Rightarrow> real \<Rightarrow> real
     \<Rightarrow> py_error + nozzle" where
  "nozzle_init L dg x section AsoAc gamma NPR ref_rttot scale_ps =
    (if section = [] then Inl IndexError
     else
       let As = (if truthy AsoAc then the AsoAc else last section / min_list section);
           Ax = map (\<lambda>s. s * As / last section) section
       in (case argmin (map abs Ax) of
             Inl e \<Rightarrow> Inl e
           | Inr it \<Rightarrow>
               (case NPR_Ms_list L dg As of (NPR0, NPRsw, NPR1, Msub, Msh, Msup) \<Rightarrow>
                  let n = \<lparr>nz_gamma = gamma, nz_x = x, nz_AsoAc = As, nz_AxoAc = Ax,
                           nz_ithroat = it, nz_NPR0 = NPR0, nz_NPRsw = NPRsw, nz_NPR1 = NPR1,
                           nz_Msub = Msub, nz_Msh = Msh, nz_Msup = Msup,
                           nz_ref_rttot = ref_rttot, nz_scale_ps = scale_ps,
                           nz_Pt = None, nz_M = None, nz_Ps = None\<rparr>
                  in if truthy NPR then set_NPR L dg n (the NPR) else Inr n)))"

subsection \<open>The area ratios in binary64\<close>

text \<open>
  Rounding to the nearest number with 53 significant bits, ties to the even one: the
  rounding of every binary64 operation of IEEE 754 whose result is in the normal range
  (between \<open>2\<^sup>-\<^sup>1\<^sup>0\<^sup>2\<^sup>2\<close> and \<open>2\<^sup>1\<^sup>0\<^sup>2\<^sup>4\<close>); the exponent is not bounded here.
\<close>

definition round_even :: "real \<Rightarrow> int" where
  "round_even r = (let f = \<lfloor>r\<rfloor> in
     if r - of_int f < 1 / 2 then f
     else if 1 / 2 < r - of_int f then f + 1
     else if even f then f else f + 1)"

definition fl64 :: "real \<Rightarrow> real" where
  "fl64 x = (if x = 0 then 0 else
     let e = \<lfloor>log 2 \<bar>x\<bar>\<rfloor> - 52
     in of_int (round_even (x / 2 powr of_int e)) * 2 powr of_int e)"

text \<open>
  Lines 160 to 165 of \<^verbatim>\<open>__init__\<close> with the rounding \<open>fl\<close> of each multiplication and
  division explicit: the result is (\<^verbatim>\<open>self.AsoAc\<close>, \<^verbatim>\<open>self.AxoAc\<close>, \<^verbatim>\<open>self.ithroat\<close>).
  \<^verbatim>\<open>np.min\<close>, \<^verbatim>\<open>np.abs\<close> and \<^verbatim>\<open>argmin\<close> are exact. With \<open>fl64\<close> it is the program on
  float64 arrays; with the identity it is what \<open>nozzle_init\<close> stores.
\<close>

definition section_ratios ::
  "(real \<Rightarrow> real) \<Rightarrow> real list \<Rightarrow> real option \<Rightarrow> py_error + real \<times> real list \<times> nat" where
  "section_ratios fl section AsoAc =
    (if section = [] then Inl IndexError
     else
       let As = (if truthy AsoAc then the AsoAc else fl (last section / min_list section));
           Ax = map (\<lambda>s. fl (fl (s * As) / last section)) section
       in (case argmin (map abs Ax) of
             Inl e \<Rightarrow> Inl e
           | Inr it \<Rightarrow> Inr (As, Ax, it)))"

text \<open>The accessors read an attribute; reading one that was never assigned raises AttributeError.\<close>

definition Mach :: "nozzle \<Rightarrow> py_error + real list" where
  "Mach n = (case nz_M n of None \<Rightarrow> Inl AttributeError | Some a \<Rightarrow> Inr a)"

definition Ps :: "nozzle \<Rightarrow> py_error + real list" where
  "Ps n = (case nz_Ps n of None \<Rightarrow> Inl AttributeError | Some a \<Rightarrow> Inr a)"

definition Ptot :: "nozzle \<Rightarrow> py_error + real list" where
  "Ptot n = (case nz_Pt n of None \<Rightarrow> Inl AttributeError | Some a \<Rightarrow> Inr a)"

subsection \<open>A concrete instance\<close>

text \<open>
  A concrete set of relations, to run the definitions on numbers. It has the shape the
  module relies on (an area ratio with minimum 1 at Mach 1 and two exact inverse
  branches, a total to static ratio that increases with the Mach number from 1, a shock
  that is lossless at Mach 1) with rational values; it is not the gas dynamics of
  \<^verbatim>\<open>aerokit.aero\<close>. Every general statement below holds for all relations.
\<close>

definition sample_relations :: relations where
  "sample_relations =
    \<lparr>PtPs_Mach = (\<lambda>M g. 1 + (g + 1) / 2 * M),
     Mach_PtPs = (\<lambda>p g. 2 * (p - 1) / (g + 1)),
     Sigma_Mach = (\<lambda>M g. if M \<le> 1 then 1 / M else M),
     MachSub_Sigma = (\<lambda>s g. 1 / s),
     MachSup_Sigma = (\<lambda>s g. s),
     downstream_Mn = (\<lambda>M g. 1 / M),
     Pi_ratio = (\<lambda>M g. 1 / M),
     Mn_Pi_ratio = (\<lambda>r g. 1 / r),
     downstreamMach_Mach_ShockPsratio = (\<lambda>M r g. M / r)\<rparr>"

text \<open>
  The objects \<^verbatim>\<open>nozzle(x, section)\<close> builds from the section laws [2, 1, 3/2, 2] and
  [2, 1, 2], and \<^verbatim>\<open>nozzle(x, section, AsoAc=3)\<close> from [2, 1, 2], with the sample relations
  and gamma 1.4.
\<close>

definition sample_nozzle :: nozzle where
  "sample_nozzle =
    \<lparr>nz_gamma = 14 / 10, nz_x = [0, 1, 2, 3], nz_AsoAc = 2, nz_AxoAc = [2, 1, 3 / 2, 2],
     nz_ithroat = 1, nz_NPR0 = 16 / 10, nz_NPRsw = 32 / 10, nz_NPR1 = 34 / 10,
     nz_Msub = 1 / 2, nz_Msh = 1 / 2, nz_Msup = 2, nz_ref_rttot = 1, nz_scale_ps = 1,
     nz_Pt = None, nz_M = None, nz_Ps = None\<rparr>"

definition short_nozzle :: nozzle where
  "short_nozzle =
    \<lparr>nz_gamma = 14 / 10, nz_x = [0, 1, 2], nz_AsoAc = 2, nz_AxoAc = [2, 1, 2],
     nz_ithroat = 1, nz_NPR0 = 16 / 10, nz_NPRsw = 32 / 10, nz_NPR1 = 34 / 10,
     nz_Msub = 1 / 2, nz_Msh = 1 / 2, nz_Msup = 2, nz_ref_rttot = 1, nz_scale_ps = 1,
     nz_Pt = None, nz_M = None, nz_Ps = None\<rparr>"

definition forced_nozzle :: nozzle where
  "forced_nozzle =
    \<lparr>nz_gamma = 14 / 10, nz_x = [0, 1, 2], nz_AsoAc = 3, nz_AxoAc = [3, 3 / 2, 3],
     nz_ithroat = 1, nz_NPR0 = 14 / 10, nz_NPRsw = 42 / 10, nz_NPR1 = 46 / 10,
     nz_Msub = 1 / 3, nz_Msh = 1 / 3, nz_Msup = 3, nz_ref_rttot = 1, nz_scale_ps = 1,
     nz_Pt = None, nz_M = None, nz_Ps = None\<rparr>"

section \<open>The regime classifier\<close>

text \<open>The tuple with gamma as a parameter.\<close>

lemma NPR_Ms_list_components:
  "NPR_Ms_list L dg AsAc =
     (PtPs_Mach L (MachSub_Sigma L AsAc dg) dg,
      PtPs_Mach L (downstream_Mn L (MachSup_Sigma L AsAc dg) dg) dg
        / Pi_ratio L (MachSup_Sigma L AsAc dg) dg,
      PtPs_Mach L (MachSup_Sigma L AsAc dg) dg,
      MachSub_Sigma L AsAc dg,
      downstream_Mn L (MachSup_Sigma L AsAc dg) dg,
      MachSup_Sigma L AsAc dg)"
  by (simp add: NPR_Ms_list_def Let_def)

lemma run_call_default [simp]: "run_state (call_default f v) s = (f v (defg_gamma s), s)"
  by (simp add: call_default_def)


text \<open>
  By contrast the bracket that \<^verbatim>\<open>__init__\<close> puts around the call (lines 166 and 172) does
  change the state of the default gas, in the saved value; the current gamma is the same
  before, between and after, which is why \<open>dg\<close> is one parameter of \<open>nozzle_init\<close>.
\<close>

lemma init_bracket:
  "run_state (do { save_default; r \<leftarrow> NPR_Ms_list_defg L AsAc; restore_default;
                   State_Monad.return r }) st
     = (NPR_Ms_list L (defg_gamma st) AsAc, st\<lparr>defg_saved := defg_gamma st\<rparr>)"
  by (simp add: save_default_def restore_default_def NPR_Ms_list_defg_def NPR_Ms_list_def Let_def
      State_Monad.update_def)

lemma NPR_Ms_list_thresholds:
  "fst (NPR_Ms_list L dg AsAc) = NPR_choked_subsonic L dg AsAc"
  "fst (snd (NPR_Ms_list L dg AsAc)) = NPR_shock_at_exit L dg AsAc"
  "fst (snd (snd (NPR_Ms_list L dg AsAc))) = NPR_choked_supersonic L dg AsAc"
  by (simp_all add: NPR_Ms_list_def NPR_choked_subsonic_def NPR_shock_at_exit_def
      NPR_choked_supersonic_def Let_def)

lemma sample_thresholds:
  "s \<noteq> 0 \<Longrightarrow> NPR_Ms_list sample_relations g s =
     (1 + (g + 1) / 2 / s, s + (g + 1) / 2, 1 + (g + 1) / 2 * s, 1 / s, 1 / s, s)"
  by (simp add: NPR_Ms_list_def sample_relations_def Let_def field_simps)

section \<open>Exit Mach number\<close>

lemma closed_form_doctest:
  fixes dg AsAc NPR :: real
  assumes "dg = 14 / 10" and "AsAc = 2636 / 1000" and "NPR = 15 / 10"
  shows "round (sqrt ((sqrt (1 + 2 * (dg - 1) *
            (NPR / AsAc / ((dg + 1) / 2) powr ((dg + 1) / (2 * (dg - 1))))\<^sup>2) - 1) / (dg - 1))
          * 10 ^ 8) = 32586574"
proof -
  define K where "K = NPR / AsAc / ((dg + 1) / 2) powr ((dg + 1) / (2 * (dg - 1)))"
  have e: "((dg + 1) / 2) powr ((dg + 1) / (2 * (dg - 1))) = 1728 / 1000"
  proof -
    have "(dg + 1) / (2 * (dg - 1)) = 3" unfolding assms(1) by simp
    moreover have "((dg + 1) / 2) powr 3 = ((dg + 1) / 2) ^ 3"
      by (rule powr_numeral) (simp add: assms(1))
    ultimately show ?thesis by (simp add: power3_eq_cube assms(1))
  qed
  have K: "K = 15625 / 47448" unfolding K_def e assms(2,3) by simp
  define y where "y = 1 + 2 * (dg - 1) * K\<^sup>2"
  have y: "y = 611656301 / 562828176" unfolding y_def K assms(1) by (simp add: power2_eq_square)
  define z where "z = (sqrt y - 1) / (dg - 1)"
  have z: "z = (sqrt y - 1) / (4 / 10)" unfolding z_def assms(1) by simp
  define lo :: real where "lo = 325865735 / 10 ^ 9"
  define hi :: real where "hi = 325865745 / 10 ^ 9"
  have "(1 + (4 / 10) * lo\<^sup>2)\<^sup>2 \<le> y" unfolding y lo_def by (simp add: power2_eq_square)
  then have "1 + (4 / 10) * lo\<^sup>2 \<le> sqrt y" by (rule real_le_rsqrt)
  then have zlo: "lo\<^sup>2 \<le> z" unfolding z by (simp add: field_simps)
  have "y < (1 + (4 / 10) * hi\<^sup>2)\<^sup>2" unfolding y hi_def by (simp add: power2_eq_square)
  then have "sqrt y < 1 + (4 / 10) * hi\<^sup>2"
    by (intro real_less_lsqrt) (simp_all add: hi_def)
  then have zhi: "z < hi\<^sup>2" unfolding z by (simp add: field_simps)
  have 1: "lo \<le> sqrt z" using zlo by (rule real_le_rsqrt)
  have 2: "sqrt z < hi" using zhi by (intro real_less_lsqrt) (simp_all add: hi_def)
  have "round (sqrt z * 10 ^ 8) = 32586574"
    unfolding round_def using 1 2 by (simp add: floor_eq_iff lo_def hi_def field_simps)
  then show ?thesis unfolding z_def y_def K_def .
qed

text \<open>
  C1. For AsAc > 1, NPR > 1 and gamma > 1, \<^verbatim>\<open>Ms_from_AsAc_NPR(AsAc, NPR)\<close> returns
  Mach_PtPs(NPR) when NPR < NPR0, Msup when NPR > NPRsw, and otherwise
  \<open>sqrt ((sqrt (1 + 2 (\<gamma> - 1) K\<^sup>2) - 1) / (\<gamma> - 1))\<close> with
  \<open>K = NPR / AsAc / ((\<gamma> + 1) / 2) powr ((\<gamma> + 1) / (2 (\<gamma> - 1)))\<close>, the thresholds being
  those of \<^verbatim>\<open>_NPR_Ms_list(AsAc)\<close>. For gamma = 1.4, AsAc = 2.636 and NPR = 1.5 lying
  between NPR0 and NPRsw (the docstring's "case with shock in diffuser"), the result
  rounded to 8 decimals is 0.32586574. The value is computed in real arithmetic.
\<close>
theorem Ms_from_AsAc_NPR_regimes:
  assumes "1 < AsAc" and "1 < NPR" and "1 < dg"
    and "NPR_Ms_list L dg AsAc = (NPR0, NPRsw, NPR1, Msub, Msh, Msup)"
  shows "Ms_from_AsAc_NPR L dg AsAc NPR = Inr
      (if NPR < NPR0 then Mach_PtPs L NPR dg
       else if NPRsw < NPR then Msup
       else sqrt ((sqrt (1 + 2 * (dg - 1) *
              (NPR / AsAc / ((dg + 1) / 2) powr ((dg + 1) / (2 * (dg - 1))))\<^sup>2) - 1) / (dg - 1)))
    \<and> (dg = 14 / 10 \<and> AsAc = 2636 / 1000 \<and> NPR = 15 / 10 \<and> NPR0 \<le> NPR \<and> NPR \<le> NPRsw \<longrightarrow>
         (\<exists>Ms. Ms_from_AsAc_NPR L dg AsAc NPR = Inr Ms \<and> round (Ms * 10 ^ 8) = 32586574))"
proof -
  have e: "(dg + 1) / 2 / (dg - 1) = (dg + 1) / (2 * (dg - 1))" by simp
  have A: "Ms_from_AsAc_NPR L dg AsAc NPR = Inr
      (if NPR < NPR0 then Mach_PtPs L NPR dg
       else if NPRsw < NPR then Msup
       else sqrt ((sqrt (1 + 2 * (dg - 1) *
              (NPR / AsAc / ((dg + 1) / 2) powr ((dg + 1) / (2 * (dg - 1))))\<^sup>2) - 1) / (dg - 1)))"
    using assms(3) by (simp add: Ms_from_AsAc_NPR_def assms(4) Let_def e power2_eq_square mult.assoc)
  have B: "\<exists>Ms. Ms_from_AsAc_NPR L dg AsAc NPR = Inr Ms \<and> round (Ms * 10 ^ 8) = 32586574"
    if "dg = 14 / 10 \<and> AsAc = 2636 / 1000 \<and> NPR = 15 / 10 \<and> NPR0 \<le> NPR \<and> NPR \<le> NPRsw"
  proof -
    from that have "\<not> NPR < NPR0" and "\<not> NPRsw < NPR" by simp_all
    with A have "Ms_from_AsAc_NPR L dg AsAc NPR = Inr
       (sqrt ((sqrt (1 + 2 * (dg - 1) *
              (NPR / AsAc / ((dg + 1) / 2) powr ((dg + 1) / (2 * (dg - 1))))\<^sup>2) - 1) / (dg - 1)))"
      by simp
    moreover from that have "round (sqrt ((sqrt (1 + 2 * (dg - 1) *
            (NPR / AsAc / ((dg + 1) / 2) powr ((dg + 1) / (2 * (dg - 1))))\<^sup>2) - 1) / (dg - 1))
          * 10 ^ 8) = 32586574"
      by (intro closed_form_doctest) simp_all
    ultimately show ?thesis by blast
  qed
  from A B show ?thesis by blast
qed

text \<open>The statement at the docstring's input, with the sample relations.\<close>
theorem Ms_from_AsAc_NPR_regimes_witness:
  "(1::real) < 2636 / 1000 \<and> (1::real) < 15 / 10 \<and> (1::real) < 14 / 10
   \<and> Ms_from_AsAc_NPR sample_relations (14 / 10) (2636 / 1000) (15 / 10) = Inr
      (sqrt ((sqrt (1 + 2 * (14 / 10 - 1) *
              (15 / 10 / (2636 / 1000) / ((14 / 10 + 1) / 2) powr ((14 / 10 + 1) / (2 * (14 / 10 - 1))))\<^sup>2) - 1)
            / (14 / 10 - 1)))
   \<and> (\<exists>Ms. Ms_from_AsAc_NPR sample_relations (14 / 10) (2636 / 1000) (15 / 10) = Inr Ms
         \<and> round (Ms * 10 ^ 8) = 32586574)"
proof -
  have h: "NPR_Ms_list sample_relations (14 / 10) (2636 / 1000) =
      (1 + (14 / 10 + 1) / 2 / (2636 / 1000), 2636 / 1000 + (14 / 10 + 1) / 2,
       1 + (14 / 10 + 1) / 2 * (2636 / 1000), 1 / (2636 / 1000), 1 / (2636 / 1000), 2636 / 1000)"
    by (rule sample_thresholds) simp
  have a: "(1::real) < 2636 / 1000" and b: "(1::real) < 15 / 10" and c: "(1::real) < 14 / 10"
    by simp_all
  note t = Ms_from_AsAc_NPR_regimes [OF a b c h]
  have q: "(14 / 10 :: real) = 14 / 10 \<and> (2636 / 1000 :: real) = 2636 / 1000
      \<and> (15 / 10 :: real) = 15 / 10
      \<and> (1 + (14 / 10 + 1) / 2 / (2636 / 1000) :: real) \<le> 15 / 10
      \<and> (15 / 10 :: real) \<le> 2636 / 1000 + (14 / 10 + 1) / 2"
    by simp
  have n1: "\<not> (15 / 10 :: real) < 1 + (14 / 10 + 1) / 2 / (2636 / 1000)"
    and n2: "\<not> (2636 / 1000 + (14 / 10 + 1) / 2 :: real) < 15 / 10"
    by simp_all
  from t [THEN conjunct1] have 1:
    "Ms_from_AsAc_NPR sample_relations (14 / 10) (2636 / 1000) (15 / 10) = Inr
      (sqrt ((sqrt (1 + 2 * (14 / 10 - 1) *
              (15 / 10 / (2636 / 1000) / ((14 / 10 + 1) / 2) powr ((14 / 10 + 1) / (2 * (14 / 10 - 1))))\<^sup>2) - 1)
            / (14 / 10 - 1)))"
    by (simp only: n1 n2 if_False)
  from t [THEN conjunct2, rule_format, OF q] have 2:
    "\<exists>Ms. Ms_from_AsAc_NPR sample_relations (14 / 10) (2636 / 1000) (15 / 10) = Inr Ms
         \<and> round (Ms * 10 ^ 8) = 32586574" .
  from a b c 1 2 show ?thesis by blast
qed

text \<open>
  C7. For AsAc > 1, NPR > 1 and gamma > 1, with the thresholds of \<^verbatim>\<open>_NPR_Ms_list(AsAc)\<close>
  in the order NPR0 \<open>\<le>\<close> NPRsw \<open>\<le>\<close> NPR1 that makes the four ranges a partition,
  \<^verbatim>\<open>Madapt_from_AsAc_NPR(AsAc, NPR)\<close> returns Mach_PtPs(NPR) when NPR < NPR0 (as the
  confined solver does), Mach_PtPs(NPR) when NPR > NPR1,
  downstreamMach_Mach_ShockPsratio(Msup, NPR1 / NPR) when NPRsw < NPR \<open>\<le>\<close> NPR1, and the
  closed form of the confined solver when NPR0 \<open>\<le>\<close> NPR \<open>\<le>\<close> NPRsw.
\<close>
theorem Madapt_from_AsAc_NPR_regimes:
  assumes "1 < AsAc" and "1 < NPR" and "1 < dg"
    and "NPR_Ms_list L dg AsAc = (NPR0, NPRsw, NPR1, Msub, Msh, Msup)"
    and "NPR0 \<le> NPRsw" and "NPRsw \<le> NPR1"
  shows "(NPR < NPR0 \<longrightarrow>
            Madapt_from_AsAc_NPR L dg AsAc NPR = Inr (Mach_PtPs L NPR dg)
          \<and> Madapt_from_AsAc_NPR L dg AsAc NPR = Ms_from_AsAc_NPR L dg AsAc NPR)
    \<and> (NPR1 < NPR \<longrightarrow> Madapt_from_AsAc_NPR L dg AsAc NPR = Inr (Mach_PtPs L NPR dg))
    \<and> (NPRsw < NPR \<and> NPR \<le> NPR1 \<longrightarrow>
          Madapt_from_AsAc_NPR L dg AsAc NPR
            = Inr (downstreamMach_Mach_ShockPsratio L Msup (NPR1 / NPR) dg))
    \<and> (NPR0 \<le> NPR \<and> NPR \<le> NPRsw \<longrightarrow>
          Madapt_from_AsAc_NPR L dg AsAc NPR = Inr
            (sqrt ((sqrt (1 + 2 * (dg - 1) *
               (NPR / AsAc / ((dg + 1) / 2) powr ((dg + 1) / (2 * (dg - 1))))\<^sup>2) - 1) / (dg - 1)))
          \<and> Madapt_from_AsAc_NPR L dg AsAc NPR = Ms_from_AsAc_NPR L dg AsAc NPR)"
proof -
  have e: "(dg + 1) / 2 / (dg - 1) = (dg + 1) / (2 * (dg - 1))" by simp
  show ?thesis
    using assms(3,5,6)
    by (auto simp add: Madapt_from_AsAc_NPR_def Ms_from_AsAc_NPR_def assms(4) Let_def e
        power2_eq_square mult.assoc)
qed

text \<open>One pressure ratio in each of the four ranges, at AsAc = 2.\<close>
theorem Madapt_from_AsAc_NPR_regimes_witness:
  "Madapt_from_AsAc_NPR sample_relations (14 / 10) 2 (15 / 10)
      = Inr (Mach_PtPs sample_relations (15 / 10) (14 / 10))
   \<and> Madapt_from_AsAc_NPR sample_relations (14 / 10) 2 4
      = Inr (Mach_PtPs sample_relations 4 (14 / 10))
   \<and> Madapt_from_AsAc_NPR sample_relations (14 / 10) 2 (33 / 10)
      = Inr (downstreamMach_Mach_ShockPsratio sample_relations 2 (34 / 10 / (33 / 10)) (14 / 10))
   \<and> Madapt_from_AsAc_NPR sample_relations (14 / 10) 2 (5 / 2)
      = Ms_from_AsAc_NPR sample_relations (14 / 10) 2 (5 / 2)"
proof -
  have h: "NPR_Ms_list sample_relations (14 / 10) 2 = (16 / 10, 32 / 10, 34 / 10, 1 / 2, 1 / 2, 2)"
    by (simp add: sample_thresholds)
  have a: "(1::real) < 2" and c: "(1::real) < 14 / 10"
    and o1: "(16 / 10 :: real) \<le> 32 / 10" and o2: "(32 / 10 :: real) \<le> 34 / 10"
    by simp_all
  note t = Madapt_from_AsAc_NPR_regimes [OF a _ c h o1 o2]
  have b1: "(1::real) < 15 / 10" and q1: "(15 / 10 :: real) < 16 / 10" by simp_all
  have b2: "(1::real) < 4" and q2: "(34 / 10 :: real) < 4" by simp_all
  have b3: "(1::real) < 33 / 10" and q3: "(32 / 10 :: real) < 33 / 10 \<and> (33 / 10 :: real) \<le> 34 / 10"
    by simp_all
  have b4: "(1::real) < 5 / 2" and q4: "(16 / 10 :: real) \<le> 5 / 2 \<and> (5 / 2 :: real) \<le> 32 / 10"
    by simp_all
  note r1 = t [OF b1, THEN conjunct1, rule_format, OF q1, THEN conjunct1]
  note r2 = t [OF b2, THEN conjunct2, THEN conjunct1, rule_format, OF q2]
  note r3 = t [OF b3, THEN conjunct2, THEN conjunct2, THEN conjunct1, rule_format, OF q3]
  note r4 = t [OF b4, THEN conjunct2, THEN conjunct2, THEN conjunct2, rule_format, OF q4,
      THEN conjunct2]
  from r1 r2 r3 r4 show ?thesis by blast
qed

section \<open>Auxiliary facts on arrays\<close>

subsection \<open>argmin\<close>

lemma first_index_mem:
  "v \<in> set xs \<Longrightarrow> first_index v xs < length xs \<and> xs ! first_index v xs = v"
  by (induction xs) auto

lemma first_index_first: "j < first_index v xs \<Longrightarrow> xs ! j \<noteq> v"
proof (induction xs arbitrary: j)
  case Nil
  then show ?case by simp
next
  case (Cons y ys)
  then show ?case by (cases j) (auto split: if_splits)
qed

lemma min_list_mem: "xs \<noteq> [] \<Longrightarrow> min_list xs \<in> set (xs :: real list)"
  by (simp add: min_list_Min)

lemma min_list_le: "x \<in> set xs \<Longrightarrow> min_list xs \<le> (x :: real)"
  by (cases "xs = []") (simp_all add: min_list_Min)

lemma min_list_eqI:
  fixes v :: real
  assumes "v \<in> set xs" and "\<And>x. x \<in> set xs \<Longrightarrow> v \<le> x"
  shows "min_list xs = v"
proof -
  from assms(1) have ne: "xs \<noteq> []" by auto
  have "min_list xs \<le> v" using assms(1) by (rule min_list_le)
  moreover have "v \<le> min_list xs" using assms(2) min_list_mem [OF ne] by blast
  ultimately show ?thesis by simp
qed

lemma argmin_Inr:
  assumes "argmin xs = Inr i"
  shows "i < length xs" and "xs ! i = min_list xs"
    and "\<And>j. j < length xs \<Longrightarrow> xs ! i \<le> xs ! j"
    and "\<And>j. j < i \<Longrightarrow> xs ! j \<noteq> xs ! i"
proof -
  from assms have ne: "xs \<noteq> []" and i: "i = first_index (min_list xs) xs"
    by (auto simp add: argmin_def split: if_splits)
  from first_index_mem [OF min_list_mem [OF ne]] i
  show 1: "i < length xs" and 2: "xs ! i = min_list xs" by simp_all
  show "xs ! i \<le> xs ! j" if "j < length xs" for j
    using that 2 by (simp add: min_list_le)
  show "xs ! j \<noteq> xs ! i" if "j < i" for j
    using that first_index_first [of j "min_list xs" xs] i 2 by simp
qed

lemma argmin_total: "xs \<noteq> [] \<Longrightarrow> \<exists>i. argmin xs = Inr i"
  by (simp add: argmin_def)

subsection \<open>The choked field\<close>

lemma length_choked_field [simp]: "length (choked_field L n) = length (nz_AxoAc n)"
  by (simp add: choked_field_def Let_def)

lemma choked_field_nth:
  assumes "i < length (nz_AxoAc n)"
  shows "choked_field L n ! i =
    (if i \<le> nz_ithroat n then MachSub_Sigma L (nz_AxoAc n ! i) (nz_gamma n)
     else MachSup_Sigma L (nz_AxoAc n ! i) (nz_gamma n))"
  using assms by (auto simp add: choked_field_def Let_def nth_append min_def)

section \<open>The field solver\<close>

subsection \<open>The three branches of set_NPR\<close>

lemma set_NPR_subsonic:
  assumes "NPR < nz_NPR0 n"
  shows "set_NPR L dg n NPR = Inr (n
    \<lparr>nz_Pt := Some (map (\<lambda>_. 1) (nz_AxoAc n)),
     nz_M := Some (map (\<lambda>a. MachSub_Sigma L
                (a / nz_AsoAc n * Sigma_Mach L (Mach_PtPs L NPR (nz_gamma n)) dg) (nz_gamma n))
              (nz_AxoAc n)),
     nz_Ps := Some (map2 (\<lambda>p m. p / PtPs_Mach L m (nz_gamma n)) (map (\<lambda>_. 1) (nz_AxoAc n))
              (map (\<lambda>a. MachSub_Sigma L
                (a / nz_AsoAc n * Sigma_Mach L (Mach_PtPs L NPR (nz_gamma n)) dg) (nz_gamma n))
              (nz_AxoAc n)))\<rparr>)"
  using assms by (simp add: set_NPR_def Let_def)

lemma set_NPR_supersonic:
  assumes "\<not> NPR < nz_NPR0 n" and "\<not> NPR < nz_NPRsw n"
  shows "set_NPR L dg n NPR = Inr (n
    \<lparr>nz_Pt := Some (map (\<lambda>_. 1) (nz_AxoAc n)),
     nz_M := Some (choked_field L n),
     nz_Ps := Some (map2 (\<lambda>p m. p / PtPs_Mach L m dg) (map (\<lambda>_. 1) (nz_AxoAc n))
              (choked_field L n))\<rparr>)"
  using assms by (simp add: set_NPR_def Let_def)

lemma set_NPR_shock:
  assumes "\<not> NPR < nz_NPR0 n" and "NPR < nz_NPRsw n" and "set_NPR L dg n NPR = Inr n'"
  obtains Ms ish where
    "Ms_from_AsAc_NPR L dg (nz_AsoAc n) NPR = Inr Ms"
    "argmin (map (\<lambda>m. \<bar>m - Mn_Pi_ratio L (PtPs_Mach L Ms dg / NPR) dg\<bar>) (choked_field L n)) = Inr ish"
    "n' = n
      \<lparr>nz_Pt := Some (take ish (map (\<lambda>_. 1) (nz_AxoAc n))
                 @ replicate (length (nz_AxoAc n) - ish) (PtPs_Mach L Ms dg / NPR)),
       nz_M := Some (take ish (choked_field L n)
                 @ map (\<lambda>a. MachSub_Sigma L (a * Sigma_Mach L Ms dg / nz_AsoAc n) dg)
                     (drop ish (nz_AxoAc n))),
       nz_Ps := Some (map2 (\<lambda>p m. p / PtPs_Mach L m dg)
                 (take ish (map (\<lambda>_. 1) (nz_AxoAc n))
                    @ replicate (length (nz_AxoAc n) - ish) (PtPs_Mach L Ms dg / NPR))
                 (take ish (choked_field L n)
                    @ map (\<lambda>a. MachSub_Sigma L (a * Sigma_Mach L Ms dg / nz_AsoAc n) dg)
                        (drop ish (nz_AxoAc n))))\<rparr>"
  using assms by (auto simp add: set_NPR_def Let_def split: sum.splits)

lemma shock_arrays_nth:
  assumes "ish < length Ax" and "length cf = length Ax" and "i < length Ax"
  shows "(take ish (map (\<lambda>_. 1) Ax) @ replicate (length Ax - ish) (c :: real)) ! i
           = (if i < ish then 1 else c)"
    and "(take ish cf @ map f (drop ish Ax)) ! i = (if i < ish then cf ! i else f (Ax ! i))"
  using assms by (auto simp add: nth_append min_def)

lemma set_NPR_values:
  assumes "set_NPR L dg n v = Inr n'"
  shows "\<exists>M P T. nz_M n' = Some M \<and> nz_Ps n' = Some P \<and> nz_Pt n' = Some T
      \<and> length M = length (nz_AxoAc n) \<and> length P = length (nz_AxoAc n)
      \<and> length T = length (nz_AxoAc n)
      \<and> (v < nz_NPR0 n \<longrightarrow> (\<forall>i < length (nz_AxoAc n).
            T ! i = 1
          \<and> M ! i = MachSub_Sigma L
                (nz_AxoAc n ! i / nz_AsoAc n * Sigma_Mach L (Mach_PtPs L v (nz_gamma n)) dg)
                (nz_gamma n)
          \<and> P ! i = 1 / PtPs_Mach L (M ! i) (nz_gamma n)))
      \<and> (nz_NPR0 n \<le> v \<and> nz_NPRsw n \<le> v \<longrightarrow> (\<forall>i < length (nz_AxoAc n).
            T ! i = 1
          \<and> M ! i = (if i \<le> nz_ithroat n then MachSub_Sigma L (nz_AxoAc n ! i) (nz_gamma n)
                     else MachSup_Sigma L (nz_AxoAc n ! i) (nz_gamma n))
          \<and> P ! i = 1 / PtPs_Mach L (M ! i) dg))
      \<and> (nz_NPR0 n \<le> v \<and> v < nz_NPRsw n \<longrightarrow>
           (\<exists>Ms ish. Ms_from_AsAc_NPR L dg (nz_AsoAc n) v = Inr Ms
              \<and> argmin (map (\<lambda>m. \<bar>m - Mn_Pi_ratio L (PtPs_Mach L Ms dg / v) dg\<bar>)
                    (choked_field L n)) = Inr ish
              \<and> ish < length (nz_AxoAc n)
              \<and> (\<forall>i < length (nz_AxoAc n).
                    T ! i = (if i < ish then 1 else PtPs_Mach L Ms dg / v)
                  \<and> M ! i = (if i < ish
                       then (if i \<le> nz_ithroat n
                             then MachSub_Sigma L (nz_AxoAc n ! i) (nz_gamma n)
                             else MachSup_Sigma L (nz_AxoAc n ! i) (nz_gamma n))
                       else MachSub_Sigma L (nz_AxoAc n ! i * Sigma_Mach L Ms dg / nz_AsoAc n) dg)
                  \<and> P ! i = T ! i / PtPs_Mach L (M ! i) dg)))"
proof -
  consider (sub) "v < nz_NPR0 n"
    | (shock) "\<not> v < nz_NPR0 n" "v < nz_NPRsw n"
    | (sup) "\<not> v < nz_NPR0 n" "\<not> v < nz_NPRsw n"
    by blast
  then show ?thesis
  proof cases
    case sub
    from assms set_NPR_subsonic [OF sub, of L dg] have "n' = n
      \<lparr>nz_Pt := Some (map (\<lambda>_. 1) (nz_AxoAc n)),
       nz_M := Some (map (\<lambda>a. MachSub_Sigma L
                (a / nz_AsoAc n * Sigma_Mach L (Mach_PtPs L v (nz_gamma n)) dg) (nz_gamma n))
              (nz_AxoAc n)),
       nz_Ps := Some (map2 (\<lambda>p m. p / PtPs_Mach L m (nz_gamma n)) (map (\<lambda>_. 1) (nz_AxoAc n))
              (map (\<lambda>a. MachSub_Sigma L
                (a / nz_AsoAc n * Sigma_Mach L (Mach_PtPs L v (nz_gamma n)) dg) (nz_gamma n))
              (nz_AxoAc n)))\<rparr>"
      by simp
    then show ?thesis using sub by simp
  next
    case sup
    from assms set_NPR_supersonic [OF sup, of L dg] have "n' = n
      \<lparr>nz_Pt := Some (map (\<lambda>_. 1) (nz_AxoAc n)),
       nz_M := Some (choked_field L n),
       nz_Ps := Some (map2 (\<lambda>p m. p / PtPs_Mach L m dg) (map (\<lambda>_. 1) (nz_AxoAc n))
              (choked_field L n))\<rparr>"
      by simp
    then show ?thesis using sup by (simp add: choked_field_nth)
  next
    case shock
    from set_NPR_shock [OF shock assms] obtain Ms ish where
      Ms: "Ms_from_AsAc_NPR L dg (nz_AsoAc n) v = Inr Ms"
      and ish: "argmin (map (\<lambda>m. \<bar>m - Mn_Pi_ratio L (PtPs_Mach L Ms dg / v) dg\<bar>) (choked_field L n))
              = Inr ish"
      and n': "n' = n
      \<lparr>nz_Pt := Some (take ish (map (\<lambda>_. 1) (nz_AxoAc n))
                 @ replicate (length (nz_AxoAc n) - ish) (PtPs_Mach L Ms dg / v)),
       nz_M := Some (take ish (choked_field L n)
                 @ map (\<lambda>a. MachSub_Sigma L (a * Sigma_Mach L Ms dg / nz_AsoAc n) dg)
                     (drop ish (nz_AxoAc n))),
       nz_Ps := Some (map2 (\<lambda>p m. p / PtPs_Mach L m dg)
                 (take ish (map (\<lambda>_. 1) (nz_AxoAc n))
                    @ replicate (length (nz_AxoAc n) - ish) (PtPs_Mach L Ms dg / v))
                 (take ish (choked_field L n)
                    @ map (\<lambda>a. MachSub_Sigma L (a * Sigma_Mach L Ms dg / nz_AsoAc n) dg)
                        (drop ish (nz_AxoAc n))))\<rparr>"
      by blast
    define T where "T = take ish (map (\<lambda>_. 1) (nz_AxoAc n))
                 @ replicate (length (nz_AxoAc n) - ish) (PtPs_Mach L Ms dg / v)"
    define M where "M = take ish (choked_field L n)
                 @ map (\<lambda>a. MachSub_Sigma L (a * Sigma_Mach L Ms dg / nz_AsoAc n) dg)
                     (drop ish (nz_AxoAc n))"
    from argmin_Inr(1) [OF ish] have ilt: "ish < length (nz_AxoAc n)" by simp
    then have lT: "length T = length (nz_AxoAc n)" and lM: "length M = length (nz_AxoAc n)"
      by (simp_all add: T_def M_def)
    have n'': "n' = n\<lparr>nz_Pt := Some T, nz_M := Some M,
                nz_Ps := Some (map2 (\<lambda>p m. p / PtPs_Mach L m dg) T M)\<rparr>"
      unfolding T_def M_def by (rule n')
    have nth: "T ! i = (if i < ish then 1 else PtPs_Mach L Ms dg / v)
        \<and> M ! i = (if i < ish
             then (if i \<le> nz_ithroat n
                   then MachSub_Sigma L (nz_AxoAc n ! i) (nz_gamma n)
                   else MachSup_Sigma L (nz_AxoAc n ! i) (nz_gamma n))
             else MachSub_Sigma L (nz_AxoAc n ! i * Sigma_Mach L Ms dg / nz_AsoAc n) dg)"
      if "i < length (nz_AxoAc n)" for i
      unfolding M_def T_def
      by (simp only: shock_arrays_nth [OF ilt length_choked_field that]
          choked_field_nth [OF that])
    have "\<forall>i < length (nz_AxoAc n).
            T ! i = (if i < ish then 1 else PtPs_Mach L Ms dg / v)
          \<and> M ! i = (if i < ish
               then (if i \<le> nz_ithroat n
                     then MachSub_Sigma L (nz_AxoAc n ! i) (nz_gamma n)
                     else MachSup_Sigma L (nz_AxoAc n ! i) (nz_gamma n))
               else MachSub_Sigma L (nz_AxoAc n ! i * Sigma_Mach L Ms dg / nz_AsoAc n) dg)
          \<and> map2 (\<lambda>p m. p / PtPs_Mach L m dg) T M ! i = T ! i / PtPs_Mach L (M ! i) dg"
      using nth lT lM by simp
    with Ms ish ilt lT lM shock show ?thesis unfolding n'' by auto
  qed
qed

text \<open>
  C2. After \<^verbatim>\<open>set_NPR(NPR)\<close> the three arrays have the length of the profile and, at
  every station \<open>i\<close>: if NPR < NPR0 then
  M[i] = MachSub_Sigma(AxoAc[i] / AsoAc * Sigma_Mach(Mach_PtPs(NPR))) and
  Ps[i] = Ptot[i] / PtPs_Mach(M[i]) (with the nozzle's own gamma, except Sigma_Mach, which
  is called without one); otherwise Ps[i] = Ptot[i] / PtPs_Mach(M[i]) (default gamma). The
  candidate field of the choked case holds the subsonic branch of AxoAc[i] up to and
  including the throat index and the supersonic branch after it, and it is the Mach
  array as it is when NPR \<open>\<ge>\<close> NPRsw.
\<close>
theorem set_NPR_field:
  assumes "set_NPR L dg n NPR = Inr n'" and "i < length (nz_AxoAc n)"
  shows "\<exists>M P T. nz_M n' = Some M \<and> nz_Ps n' = Some P \<and> nz_Pt n' = Some T
      \<and> length M = length (nz_AxoAc n) \<and> length P = length (nz_AxoAc n)
      \<and> length T = length (nz_AxoAc n)
      \<and> (NPR < nz_NPR0 n \<longrightarrow>
            M ! i = MachSub_Sigma L
                (nz_AxoAc n ! i / nz_AsoAc n * Sigma_Mach L (Mach_PtPs L NPR (nz_gamma n)) dg)
                (nz_gamma n)
          \<and> P ! i = T ! i / PtPs_Mach L (M ! i) (nz_gamma n))
      \<and> (nz_NPR0 n \<le> NPR \<longrightarrow> P ! i = T ! i / PtPs_Mach L (M ! i) dg)
      \<and> (nz_NPR0 n \<le> NPR \<and> nz_NPRsw n \<le> NPR \<longrightarrow> M = choked_field L n)
      \<and> choked_field L n ! i =
          (if i \<le> nz_ithroat n then MachSub_Sigma L (nz_AxoAc n ! i) (nz_gamma n)
           else MachSup_Sigma L (nz_AxoAc n ! i) (nz_gamma n))"
proof -
  note cf = choked_field_nth [OF assms(2), of L]
  consider (sub) "NPR < nz_NPR0 n"
    | (shock) "\<not> NPR < nz_NPR0 n" "NPR < nz_NPRsw n"
    | (sup) "\<not> NPR < nz_NPR0 n" "\<not> NPR < nz_NPRsw n"
    by blast
  then show ?thesis
  proof cases
    case sub
    from assms(1) set_NPR_subsonic [OF sub, of L dg] have "n' = n
      \<lparr>nz_Pt := Some (map (\<lambda>_. 1) (nz_AxoAc n)),
       nz_M := Some (map (\<lambda>a. MachSub_Sigma L
                (a / nz_AsoAc n * Sigma_Mach L (Mach_PtPs L NPR (nz_gamma n)) dg) (nz_gamma n))
              (nz_AxoAc n)),
       nz_Ps := Some (map2 (\<lambda>p m. p / PtPs_Mach L m (nz_gamma n)) (map (\<lambda>_. 1) (nz_AxoAc n))
              (map (\<lambda>a. MachSub_Sigma L
                (a / nz_AsoAc n * Sigma_Mach L (Mach_PtPs L NPR (nz_gamma n)) dg) (nz_gamma n))
              (nz_AxoAc n)))\<rparr>"
      by simp
    then show ?thesis using sub assms(2) cf by simp
  next
    case sup
    from assms(1) set_NPR_supersonic [OF sup, of L dg] have "n' = n
      \<lparr>nz_Pt := Some (map (\<lambda>_. 1) (nz_AxoAc n)),
       nz_M := Some (choked_field L n),
       nz_Ps := Some (map2 (\<lambda>p m. p / PtPs_Mach L m dg) (map (\<lambda>_. 1) (nz_AxoAc n))
              (choked_field L n))\<rparr>"
      by simp
    then show ?thesis using sup assms(2) cf by simp
  next
    case shock
    from set_NPR_shock [OF shock assms(1)] obtain Ms ish where
      ish: "argmin (map (\<lambda>m. \<bar>m - Mn_Pi_ratio L (PtPs_Mach L Ms dg / NPR) dg\<bar>) (choked_field L n))
              = Inr ish"
      and n': "n' = n
      \<lparr>nz_Pt := Some (take ish (map (\<lambda>_. 1) (nz_AxoAc n))
                 @ replicate (length (nz_AxoAc n) - ish) (PtPs_Mach L Ms dg / NPR)),
       nz_M := Some (take ish (choked_field L n)
                 @ map (\<lambda>a. MachSub_Sigma L (a * Sigma_Mach L Ms dg / nz_AsoAc n) dg)
                     (drop ish (nz_AxoAc n))),
       nz_Ps := Some (map2 (\<lambda>p m. p / PtPs_Mach L m dg)
                 (take ish (map (\<lambda>_. 1) (nz_AxoAc n))
                    @ replicate (length (nz_AxoAc n) - ish) (PtPs_Mach L Ms dg / NPR))
                 (take ish (choked_field L n)
                    @ map (\<lambda>a. MachSub_Sigma L (a * Sigma_Mach L Ms dg / nz_AsoAc n) dg)
                        (drop ish (nz_AxoAc n))))\<rparr>"
      by blast
    define T where "T = take ish (map (\<lambda>_. 1) (nz_AxoAc n))
                 @ replicate (length (nz_AxoAc n) - ish) (PtPs_Mach L Ms dg / NPR)"
    define M where "M = take ish (choked_field L n)
                 @ map (\<lambda>a. MachSub_Sigma L (a * Sigma_Mach L Ms dg / nz_AsoAc n) dg)
                     (drop ish (nz_AxoAc n))"
    from argmin_Inr(1) [OF ish] have "ish < length (nz_AxoAc n)" by simp
    then have lT: "length T = length (nz_AxoAc n)" and lM: "length M = length (nz_AxoAc n)"
      by (simp_all add: T_def M_def)
    have "n' = n\<lparr>nz_Pt := Some T, nz_M := Some M,
                nz_Ps := Some (map2 (\<lambda>p m. p / PtPs_Mach L m dg) T M)\<rparr>"
      unfolding T_def M_def by (rule n')
    then show ?thesis using shock assms(2) cf lT lM by simp
  qed
qed

subsection \<open>What the constructor establishes\<close>

lemma set_NPR_frame:
  assumes "set_NPR L dg n NPR = Inr n'"
  shows "nz_gamma n' = nz_gamma n" and "nz_x n' = nz_x n" and "nz_AsoAc n' = nz_AsoAc n"
    and "nz_AxoAc n' = nz_AxoAc n" and "nz_ithroat n' = nz_ithroat n"
    and "nz_NPR0 n' = nz_NPR0 n" and "nz_NPRsw n' = nz_NPRsw n" and "nz_NPR1 n' = nz_NPR1 n"
    and "nz_Msub n' = nz_Msub n" and "nz_Msh n' = nz_Msh n" and "nz_Msup n' = nz_Msup n"
    and "nz_ref_rttot n' = nz_ref_rttot n" and "nz_scale_ps n' = nz_scale_ps n"
  using assms by (auto simp add: set_NPR_def Let_def split: if_splits sum.splits)

lemma nozzle_init_Inr:
  assumes "nozzle_init L dg x section AsoAc gamma NPR ref_rttot scale_ps = Inr n"
  shows "section \<noteq> []"
    and "nz_AsoAc n = (if truthy AsoAc then the AsoAc else last section / min_list section)"
    and "nz_AxoAc n = map (\<lambda>s. s * nz_AsoAc n / last section) section"
    and "argmin (map abs (nz_AxoAc n)) = Inr (nz_ithroat n)"
    and "NPR_Ms_list L dg (nz_AsoAc n)
          = (nz_NPR0 n, nz_NPRsw n, nz_NPR1 n, nz_Msub n, nz_Msh n, nz_Msup n)"
    and "nz_gamma n = gamma" and "nz_x n = x"
proof -
  show ne: "section \<noteq> []" using assms by (auto simp add: nozzle_init_def)
  define As where "As = (if truthy AsoAc then the AsoAc else last section / min_list section)"
  define Ax where "Ax = map (\<lambda>s. s * As / last section) section"
  obtain it where it: "argmin (map abs Ax) = Inr it"
    using argmin_total [of "map abs Ax"] ne by (auto simp add: Ax_def)
  obtain NPR0 NPRsw NPR1 Msub Msh Msup
    where th: "NPR_Ms_list L dg As = (NPR0, NPRsw, NPR1, Msub, Msh, Msup)"
    by (metis prod_cases6)
  define n0 where "n0 = \<lparr>nz_gamma = gamma, nz_x = x, nz_AsoAc = As, nz_AxoAc = Ax,
      nz_ithroat = it, nz_NPR0 = NPR0, nz_NPRsw = NPRsw, nz_NPR1 = NPR1,
      nz_Msub = Msub, nz_Msh = Msh, nz_Msup = Msup,
      nz_ref_rttot = ref_rttot, nz_scale_ps = scale_ps,
      nz_Pt = None, nz_M = None, nz_Ps = None\<rparr>"
  have it': "argmin (map (abs \<circ> (\<lambda>s. s * As / last section)) section) = Inr it"
    using it by (simp add: Ax_def)
  have res: "(if truthy NPR then set_NPR L dg n0 (the NPR) else Inr n0) = Inr n"
    using assms ne it' th
    by (simp add: nozzle_init_def Let_def As_def [symmetric] Ax_def [symmetric] n0_def
        split: if_splits)
  have fr: "nz_gamma n = nz_gamma n0 \<and> nz_x n = nz_x n0 \<and> nz_AsoAc n = nz_AsoAc n0
      \<and> nz_AxoAc n = nz_AxoAc n0 \<and> nz_ithroat n = nz_ithroat n0
      \<and> nz_NPR0 n = nz_NPR0 n0 \<and> nz_NPRsw n = nz_NPRsw n0 \<and> nz_NPR1 n = nz_NPR1 n0
      \<and> nz_Msub n = nz_Msub n0 \<and> nz_Msh n = nz_Msh n0 \<and> nz_Msup n = nz_Msup n0"
  proof (cases "truthy NPR")
    case True
    with res have "set_NPR L dg n0 (the NPR) = Inr n" by simp
    from set_NPR_frame [OF this] show ?thesis by simp
  next
    case False
    with res show ?thesis by simp
  qed
  show "nz_AsoAc n = (if truthy AsoAc then the AsoAc else last section / min_list section)"
    using fr by (simp add: n0_def As_def)
  show "nz_AxoAc n = map (\<lambda>s. s * nz_AsoAc n / last section) section"
    using fr by (simp add: n0_def Ax_def)
  show "argmin (map abs (nz_AxoAc n)) = Inr (nz_ithroat n)"
    using fr it by (simp add: n0_def)
  show "NPR_Ms_list L dg (nz_AsoAc n)
          = (nz_NPR0 n, nz_NPRsw n, nz_NPR1 n, nz_Msub n, nz_Msh n, nz_Msup n)"
    using fr th by (simp add: n0_def)
  show "nz_gamma n = gamma" and "nz_x n = x" using fr by (simp_all add: n0_def)
qed

lemma nozzle_init_no_NPR:
  assumes "nozzle_init L dg x section AsoAc gamma NPR ref_rttot scale_ps = Inr n"
    and "\<not> truthy NPR"
  shows "nz_M n = None" and "nz_Ps n = None" and "nz_Pt n = None"
  using assms
  by (auto simp add: nozzle_init_def Let_def split: if_splits sum.splits prod.splits)

lemma length_AxoAc_init:
  assumes "nozzle_init L dg x section AsoAc gamma NPR ref_rttot scale_ps = Inr n"
  shows "length (nz_AxoAc n) = length section"
  by (simp add: nozzle_init_Inr(3) [OF assms])

lemma Ms_from_AsAc_NPR_total:
  "dg \<noteq> 1 \<Longrightarrow> \<exists>Ms. Ms_from_AsAc_NPR L dg AsAc NPR = Inr Ms"
  by (simp add: Ms_from_AsAc_NPR_def Let_def split: prod.splits)

lemma set_NPR_total:
  assumes "nz_AxoAc n \<noteq> []" and "dg \<noteq> 1"
  shows "\<exists>n'. set_NPR L dg n NPR = Inr n'"
proof -
  have "\<exists>Ms. Ms_from_AsAc_NPR L dg (nz_AsoAc n) NPR = Inr Ms"
    using assms(2) by (rule Ms_from_AsAc_NPR_total)
  then obtain Ms where Ms: "Ms_from_AsAc_NPR L dg (nz_AsoAc n) NPR = Inr Ms" ..
  have "choked_field L n \<noteq> []" using assms(1) by (metis length_choked_field length_0_conv)
  then obtain ish where
    "argmin (map (\<lambda>m. \<bar>m - Mn_Pi_ratio L (PtPs_Mach L Ms dg / NPR) dg\<bar>) (choked_field L n)) = Inr ish"
    using argmin_total [of "map (\<lambda>m. \<bar>m - Mn_Pi_ratio L (PtPs_Mach L Ms dg / NPR) dg\<bar>) (choked_field L n)"]
    by auto
  with Ms show ?thesis by (simp add: set_NPR_def Let_def)
qed

lemma set_NPR_overwrites:
  "set_NPR L dg (n\<lparr>nz_Pt := a, nz_M := b, nz_Ps := c\<rparr>) NPR = set_NPR L dg n NPR"
  by (simp add: set_NPR_def choked_field_def Let_def split: sum.splits)

subsection \<open>The sample nozzles\<close>

lemma sample_nozzle_init:
  "nozzle_init sample_relations (14 / 10) [0, 1, 2, 3] [2, 1, 3 / 2, 2] None (14 / 10) None 1 1
     = Inr sample_nozzle"
  by (simp add: nozzle_init_def argmin_def sample_thresholds sample_nozzle_def Let_def)

lemma short_nozzle_init:
  "nozzle_init sample_relations (14 / 10) [0, 1, 2] [2, 1, 2] None (14 / 10) None 1 1
     = Inr short_nozzle"
  by (simp add: nozzle_init_def argmin_def sample_thresholds short_nozzle_def Let_def)

lemma forced_nozzle_init:
  "nozzle_init sample_relations (14 / 10) [0, 1, 2] [2, 1, 2] (Some 3) (14 / 10) None 1 1
     = Inr forced_nozzle"
  by (simp add: nozzle_init_def argmin_def sample_thresholds forced_nozzle_def Let_def)

section \<open>The area ratios of a constructed nozzle\<close>

subsection \<open>Exact arithmetic\<close>

text \<open>
  With exact arithmetic and no forced \<^verbatim>\<open>AsoAc\<close>, a section law of positive areas gives
  AxoAc = section / min(section): the value at the throat index is 1.
\<close>

lemma nozzle_init_throat_ratio_exact:
  assumes "nozzle_init L dg x section AsoAc gamma NPR ref_rttot scale_ps = Inr n"
    and "\<not> truthy AsoAc" and "\<forall>s \<in> set section. 0 < s"
  shows "nz_ithroat n < length (nz_AxoAc n) \<and> nz_AxoAc n ! nz_ithroat n = 1
    \<and> min_list (nz_AxoAc n) = 1 \<and> (\<forall>j < nz_ithroat n. 1 < nz_AxoAc n ! j)"
proof -
  note i = nozzle_init_Inr [OF assms(1)]
  define m where "m = min_list section"
  define l where "l = last section"
  have mm: "m \<in> set section" unfolding m_def using i(1) by (rule min_list_mem)
  have mpos: "0 < m" and lpos: "0 < l" using assms(3) mm i(1) by (simp_all add: l_def)
  have As: "nz_AsoAc n = l / m" using i(2) assms(2) by (simp add: l_def m_def)
  have Ax: "nz_AxoAc n = map (\<lambda>s. s / m) section"
    unfolding i(3) As l_def [symmetric] using lpos by simp
  have ge1: "1 \<le> a" if "a \<in> set (nz_AxoAc n)" for a
  proof -
    from that obtain s where s: "s \<in> set section" and a: "a = s / m" unfolding Ax by auto
    from s have "m \<le> s" unfolding m_def by (rule min_list_le)
    then show ?thesis using mpos by (simp add: a)
  qed
  have abs: "map abs (nz_AxoAc n) = nz_AxoAc n"
    using ge1 by (intro map_idI) force
  have "1 \<in> set (nz_AxoAc n)" unfolding Ax using mm mpos by force
  then have min1: "min_list (nz_AxoAc n) = 1" using ge1 by (rule min_list_eqI)
  from i(4) have am: "argmin (nz_AxoAc n) = Inr (nz_ithroat n)" by (simp only: abs)
  note a = argmin_Inr [OF am]
  have "1 < nz_AxoAc n ! j" if "j < nz_ithroat n" for j
  proof -
    from that a(1) have "nz_AxoAc n ! j \<in> set (nz_AxoAc n)" by simp
    then have "1 \<le> nz_AxoAc n ! j" by (rule ge1)
    moreover from a(4) [OF that] a(2) min1 have "nz_AxoAc n ! j \<noteq> 1" by simp
    ultimately show ?thesis by simp
  qed
  with a(1) a(2) min1 show ?thesis by simp
qed

lemma nozzle_init_section_ratios:
  assumes "nozzle_init L dg x section AsoAc gamma NPR ref_rttot scale_ps = Inr n"
  shows "section_ratios (\<lambda>v. v) section AsoAc = Inr (nz_AsoAc n, nz_AxoAc n, nz_ithroat n)"
proof -
  note i = nozzle_init_Inr [OF assms]
  have ne: "(section = []) = False" using i(1) by simp
  have As: "(if truthy AsoAc then the AsoAc else last section / min_list section) = nz_AsoAc n"
    by (simp only: i(2))
  have Ax: "map (\<lambda>s. s * nz_AsoAc n / last section) section = nz_AxoAc n"
    by (simp only: i(3) [symmetric])
  show ?thesis
    unfolding section_ratios_def Let_def
    by (simp only: ne if_False As Ax i(4) sum.case)
qed

subsection \<open>Rounding to binary64\<close>

lemma round_even_err: "\<bar>of_int (round_even r) - r\<bar> \<le> 1 / 2"
  unfolding round_even_def Let_def by auto

lemma fl64_floor_log:
  assumes "x \<noteq> 0" and "\<lfloor>log 2 \<bar>x\<bar>\<rfloor> = k"
  shows "fl64 x = of_int (round_even (x / 2 powr of_int (k - 52))) * 2 powr of_int (k - 52)"
  using assms by (simp add: fl64_def Let_def)

lemma fl64_eval_ge1:
  assumes "2 ^ n \<le> \<bar>x\<bar>" and "\<bar>x\<bar> < 2 ^ Suc n" and "n \<le> 52"
  shows "fl64 x = of_int (round_even (x * 2 ^ (52 - n))) / 2 ^ (52 - n)"
proof -
  have x: "x \<noteq> 0"
  proof
    assume "x = 0"
    with assms(1) have "(2::real) ^ n \<le> 0" by simp
    moreover have "0 < (2::real) ^ n" by (rule zero_less_power) simp
    ultimately show False by linarith
  qed
  have "\<lfloor>log 2 \<bar>x\<bar>\<rfloor> = int n"
    using assms x by (subst floor_log_eq_powr_iff) (simp_all add: powr_realpow powr_add)
  from fl64_floor_log [OF x this]
  have "fl64 x = of_int (round_even (x / 2 powr of_int (int n - 52))) * 2 powr of_int (int n - 52)" .
  moreover have "2 powr of_int (int n - 52) = 1 / (2::real) ^ (52 - n)"
  proof -
    have "of_int (int n - 52) = - real (52 - n)" using assms(3) by simp
    moreover have "2 powr (- real (52 - n)) = 1 / (2::real) ^ (52 - n)"
      by (simp add: powr_minus powr_realpow divide_inverse)
    ultimately show ?thesis by (simp only:)
  qed
  ultimately show ?thesis by simp
qed

lemma fl64_eval_lt1:
  assumes "1 / 2 ^ Suc n \<le> \<bar>x\<bar>" and "\<bar>x\<bar> < 1 / 2 ^ n"
  shows "fl64 x = of_int (round_even (x * 2 ^ (53 + n))) / 2 ^ (53 + n)"
proof -
  have x: "x \<noteq> 0"
  proof
    assume "x = 0"
    with assms(1) have "1 / (2::real) ^ Suc n \<le> 0" by simp
    moreover have "0 < 1 / (2::real) ^ Suc n" by (intro divide_pos_pos zero_less_power) simp_all
    ultimately show False by linarith
  qed
  have p: "2 powr (- real (k :: nat)) = 1 / (2::real) ^ k" for k
    by (simp add: powr_minus powr_realpow divide_inverse)
  have "\<lfloor>log 2 \<bar>x\<bar>\<rfloor> = - int (Suc n)"
    using assms x p [of "Suc n"] p [of n]
    by (subst floor_log_eq_powr_iff) simp_all
  from fl64_floor_log [OF x this]
  have "fl64 x = of_int (round_even (x / 2 powr of_int (- int (Suc n) - 52)))
      * 2 powr of_int (- int (Suc n) - 52)" .
  moreover have "2 powr of_int (- int (Suc n) - 52) = 1 / (2::real) ^ (53 + n)"
  proof -
    have "of_int (- int (Suc n) - 52) = - real (53 + n)" by simp
    then show ?thesis by (simp only: p)
  qed
  ultimately show ?thesis by simp
qed

lemma fl64_err: "\<bar>fl64 x - x\<bar> \<le> \<bar>x\<bar> / 2 ^ 53"
proof (cases "x = 0")
  case True
  then show ?thesis by (simp add: fl64_def)
next
  case False
  define k where "k = \<lfloor>log 2 \<bar>x\<bar>\<rfloor>"
  define p :: real where "p = 2 powr of_int (k - 52)"
  have ppos: "0 < p" by (simp add: p_def)
  have kle: "2 powr of_int k \<le> \<bar>x\<bar>"
    using False floor_log_eq_powr_iff [of "\<bar>x\<bar>" 2 k] by (simp add: k_def)
  have fl: "fl64 x = of_int (round_even (x / p)) * p"
    using False by (simp add: fl64_def Let_def k_def p_def)
  have "fl64 x - x = (of_int (round_even (x / p)) - x / p) * p"
    unfolding fl using ppos by (simp add: left_diff_distrib)
  then have "\<bar>fl64 x - x\<bar> = \<bar>of_int (round_even (x / p)) - x / p\<bar> * p"
    using ppos by (simp add: abs_mult)
  also have "\<dots> \<le> 1 / 2 * p"
    using round_even_err [of "x / p"] ppos by (intro mult_right_mono) simp_all
  also have "1 / 2 * p = 2 powr of_int k / 2 ^ 53"
  proof -
    have "of_int (k - 52) = real_of_int k - 52" by simp
    then have "p = 2 powr of_int k / 2 powr 52"
      unfolding p_def by (simp only: powr_diff)
    moreover have "(2::real) powr 52 = 2 ^ 52" by (rule powr_numeral) simp
    moreover have "(2::real) ^ 53 = 2 * 2 ^ 52" by (simp only: power_Suc [symmetric]) simp
    moreover have "1 / 2 * (a / b) = a / (2 * b)" for a b :: real by simp
    ultimately show ?thesis by (simp only:)
  qed
  also have "\<dots> \<le> \<bar>x\<bar> / 2 ^ 53" using kle by (simp add: divide_right_mono)
  finally show ?thesis .
qed

lemma fl64_pos_bounds:
  assumes "0 < x"
  shows "(1 - 1 / 2 ^ 53) * x \<le> fl64 x" and "fl64 x \<le> (1 + 1 / 2 ^ 53) * x" and "0 < fl64 x"
proof -
  define u :: real where "u = 1 / 2 ^ 53"
  have u: "0 < 1 - u" by (simp add: u_def)
  from fl64_err [of x] assms have "\<bar>fl64 x - x\<bar> \<le> u * x" by (simp add: u_def)
  then have lo: "x - u * x \<le> fl64 x" and hi: "fl64 x \<le> x + u * x" by linarith+
  have 1: "(1 - u) * x \<le> fl64 x" using lo by (simp only: left_diff_distrib mult_1)
  have 2: "fl64 x \<le> (1 + u) * x" using hi by (simp only: distrib_right mult_1)
  have "0 < (1 - u) * x" using assms u by (rule mult_pos_pos [rotated])
  with 1 have 3: "0 < fl64 x" by linarith
  from 1 show "(1 - 1 / 2 ^ 53) * x \<le> fl64 x" by (simp only: u_def)
  from 2 show "fl64 x \<le> (1 + 1 / 2 ^ 53) * x" by (simp only: u_def)
  from 3 show "0 < fl64 x" .
qed

lemma section_ratios_Inr:
  assumes "section_ratios fl section AsoAc = Inr (As, Ax, it)"
  shows "section \<noteq> []"
    and "As = (if truthy AsoAc then the AsoAc else fl (last section / min_list section))"
    and "Ax = map (\<lambda>s. fl (fl (s * As) / last section)) section"
    and "argmin (map abs Ax) = Inr it"
  using assms
  by (auto simp add: section_ratios_def Let_def split: if_splits sum.splits)

lemma ratio_entry_bounds:
  assumes "0 < m" and "0 < l" and "m \<le> s"
    and As: "As = fl64 (l / m)"
  shows "(1 - 1 / 2 ^ 53) ^ 3 \<le> fl64 (fl64 (s * As) / l)"
    and "s = m \<Longrightarrow> fl64 (fl64 (s * As) / l) \<le> (1 + 1 / 2 ^ 53) ^ 3"
    and "0 < fl64 (fl64 (s * As) / l)"
proof -
  define u :: real where "u = 1 / 2 ^ 53"
  have u: "0 \<le> 1 - u" "0 \<le> 1 + u" by (simp_all add: u_def)
  have spos: "0 < s" using assms by simp
  have r: "0 < l / m" using assms by simp
  note a = fl64_pos_bounds [OF r, folded As u_def]
  have p: "0 < s * As" using spos a(3) by simp
  note b = fl64_pos_bounds [OF p, folded u_def]
  have q: "0 < fl64 (s * As) / l" using b(3) assms(2) by simp
  note c = fl64_pos_bounds [OF q, folded u_def]
  show "0 < fl64 (fl64 (s * As) / l)" by (rule c(3))
  have "(1 - u) ^ 3 * 1 \<le> (1 - u) ^ 3 * (s / m)"
    using assms u by (intro mult_left_mono) simp_all
  also have "(1 - u) ^ 3 * (s / m) = (1 - u) * ((1 - u) * (s * ((1 - u) * (l / m))) / l)"
    using assms by (simp add: power3_eq_cube field_simps)
  also have "\<dots> \<le> (1 - u) * ((1 - u) * (s * As) / l)"
    using a(1) u spos assms(2)
    by (intro mult_left_mono divide_right_mono) simp_all
  also have "\<dots> \<le> (1 - u) * (fl64 (s * As) / l)"
    using b(1) u assms(2) by (intro mult_left_mono divide_right_mono) simp_all
  also have "\<dots> \<le> fl64 (fl64 (s * As) / l)" by (rule c(1))
  finally show "(1 - 1 / 2 ^ 53) ^ 3 \<le> fl64 (fl64 (s * As) / l)" by (simp add: u_def)
  show "fl64 (fl64 (s * As) / l) \<le> (1 + 1 / 2 ^ 53) ^ 3" if "s = m"
  proof -
    have "fl64 (fl64 (s * As) / l) \<le> (1 + u) * (fl64 (s * As) / l)" by (rule c(2))
    also have "\<dots> \<le> (1 + u) * ((1 + u) * (s * As) / l)"
      using b(2) u assms(2) by (intro mult_left_mono divide_right_mono) simp_all
    also have "\<dots> \<le> (1 + u) * ((1 + u) * (s * ((1 + u) * (l / m))) / l)"
      using a(2) u spos assms(2)
      by (intro mult_left_mono divide_right_mono) simp_all
    also have "\<dots> = (1 + u) ^ 3" using assms that by (simp add: power3_eq_cube field_simps)
    finally show ?thesis by (simp add: u_def)
  qed
qed

subsection \<open>Two profiles\<close>

text \<open>
  The section law [2, 1, 2] with \<^verbatim>\<open>AsoAc=3\<close>, and the float64 section law
  [2.0, 0.7, 1.5] without \<^verbatim>\<open>AsoAc\<close>; the float 0.7 is
  3152519739159347 / 4503599627370496.
\<close>

lemma fl64_small_values:
  "fl64 6 = 6" "fl64 3 = 3" "fl64 (3 / 2) = 3 / 2"
  by (subst fl64_eval_ge1 [of 2], simp_all add: round_even_def)
     (subst fl64_eval_ge1 [of 1], simp_all add: round_even_def,
      subst fl64_eval_ge1 [of 0], simp_all add: round_even_def)

lemma forced_profile_ratios:
  "section_ratios fl64 [2, 1, 2] (Some 3) = Inr (3, [3, 3 / 2, 3], 1)"
  by (simp add: section_ratios_def argmin_def fl64_small_values Let_def)

lemma fl64_profile_values:
  "fl64 (3 / 2 / (3152519739159347 / 4503599627370496)) = 4825285315039817 / 2251799813685248"
  "fl64 (2 * (4825285315039817 / 2251799813685248)) = 4825285315039817 / 1125899906842624"
  "fl64 (4825285315039817 / 1125899906842624 / (3 / 2)) = 6433713753386423 / 2251799813685248"
  "fl64 (3152519739159347 / 4503599627370496 * (4825285315039817 / 2251799813685248))
     = 6755399441055743 / 4503599627370496"
  "fl64 (6755399441055743 / 4503599627370496 / (3 / 2)) = 9007199254740991 / 9007199254740992"
  "fl64 (3 / 2 * (4825285315039817 / 2251799813685248)) = 3618963986279863 / 1125899906842624"
  "fl64 (3618963986279863 / 1125899906842624 / (3 / 2)) = 4825285315039817 / 2251799813685248"
proof -
  show "fl64 (3 / 2 / (3152519739159347 / 4503599627370496)) = 4825285315039817 / 2251799813685248"
    by (subst fl64_eval_ge1 [of 1]) (simp_all add: round_even_def)
  show "fl64 (2 * (4825285315039817 / 2251799813685248)) = 4825285315039817 / 1125899906842624"
    by (subst fl64_eval_ge1 [of 2]) (simp_all add: round_even_def)
  show "fl64 (4825285315039817 / 1125899906842624 / (3 / 2)) = 6433713753386423 / 2251799813685248"
    by (subst fl64_eval_ge1 [of 1]) (simp_all add: round_even_def)
  show "fl64 (3152519739159347 / 4503599627370496 * (4825285315039817 / 2251799813685248))
     = 6755399441055743 / 4503599627370496"
    by (subst fl64_eval_ge1 [of 0]) (simp_all add: round_even_def)
  show "fl64 (6755399441055743 / 4503599627370496 / (3 / 2)) = 9007199254740991 / 9007199254740992"
    by (subst fl64_eval_lt1 [of 0]) (simp_all add: round_even_def)
  show "fl64 (3 / 2 * (4825285315039817 / 2251799813685248)) = 3618963986279863 / 1125899906842624"
    by (subst fl64_eval_ge1 [of 1]) (simp_all add: round_even_def)
  show "fl64 (3618963986279863 / 1125899906842624 / (3 / 2)) = 4825285315039817 / 2251799813685248"
    by (subst fl64_eval_ge1 [of 1]) (simp_all add: round_even_def)
qed

lemma float_profile_ratios:
  "section_ratios fl64 [2, 3152519739159347 / 4503599627370496, 3 / 2] None
     = Inr (4825285315039817 / 2251799813685248,
            [6433713753386423 / 2251799813685248, 9007199254740991 / 9007199254740992,
             4825285315039817 / 2251799813685248], 1)"
proof -
  define sec :: "real list" where "sec = [2, 3152519739159347 / 4503599627370496, 3 / 2]"
  have ne: "(sec = []) = False" by (simp add: sec_def)
  have m: "min_list sec = 3152519739159347 / 4503599627370496" by (simp add: sec_def)
  have l: "last sec = 3 / 2" by (simp add: sec_def)
  have As: "fl64 (last sec / min_list sec) = 4825285315039817 / 2251799813685248"
    unfolding l m by (rule fl64_profile_values(1))
  have Ax: "map (\<lambda>s. fl64 (fl64 (s * (4825285315039817 / 2251799813685248)) / last sec)) sec
      = [6433713753386423 / 2251799813685248, 9007199254740991 / 9007199254740992,
         4825285315039817 / 2251799813685248]"
    unfolding l unfolding sec_def by (simp only: list.map fl64_profile_values)
  have am: "argmin (map abs [6433713753386423 / 2251799813685248,
      9007199254740991 / 9007199254740992, 4825285315039817 / 2251799813685248]) = Inr 1"
    by (simp add: argmin_def)
  have "section_ratios fl64 sec None
     = Inr (4825285315039817 / 2251799813685248,
            [6433713753386423 / 2251799813685248, 9007199254740991 / 9007199254740992,
             4825285315039817 / 2251799813685248], 1)"
    unfolding section_ratios_def Let_def
    by (simp only: ne truthy.simps if_False As Ax am sum.case)
  then show ?thesis unfolding sec_def .
qed

text \<open>
  C9 as stated fails twice. With a forced \<^verbatim>\<open>AsoAc\<close>: section law [2, 1, 2] and
  \<^verbatim>\<open>AsoAc=3\<close> give AxoAc = [3, 3/2, 3] (line 164), so the ratio at the throat index 1,
  the minimum of the array, is 3/2. Without it, by rounding: the float64 section law
  [2.0, 0.7, 1.5] gives AsoAc = 2.142857142857143 and AxoAc[1] =
  9007199254740991 / 9007199254740992 = 0.9999999999999999 at the throat index 1.
\<close>
theorem throat_ratio_not_1:
  "nozzle_init sample_relations (14 / 10) [0, 1, 2] [2, 1, 2] (Some 3) (14 / 10) None 1 1
     = Inr forced_nozzle
   \<and> nz_AxoAc forced_nozzle = [3, 3 / 2, 3] \<and> nz_ithroat forced_nozzle = 1
   \<and> nz_AxoAc forced_nozzle ! nz_ithroat forced_nozzle \<noteq> 1
   \<and> min_list (nz_AxoAc forced_nozzle) \<noteq> 1
   \<and> section_ratios fl64 [2, 1, 2] (Some 3) = Inr (3, [3, 3 / 2, 3], 1)
   \<and> section_ratios fl64 [2, 3152519739159347 / 4503599627370496, 3 / 2] None
     = Inr (4825285315039817 / 2251799813685248,
            [6433713753386423 / 2251799813685248, 9007199254740991 / 9007199254740992,
             4825285315039817 / 2251799813685248], 1)
   \<and> [6433713753386423 / 2251799813685248, 9007199254740991 / 9007199254740992,
             4825285315039817 / 2251799813685248] ! 1 \<noteq> (1::real)
   \<and> min_list [6433713753386423 / 2251799813685248, 9007199254740991 / 9007199254740992,
             4825285315039817 / 2251799813685248] \<noteq> (1::real)"
proof -
  have a: "nz_AxoAc forced_nozzle = [3, 3 / 2, 3] \<and> nz_ithroat forced_nozzle = 1
   \<and> nz_AxoAc forced_nozzle ! nz_ithroat forced_nozzle \<noteq> 1
   \<and> min_list (nz_AxoAc forced_nozzle) \<noteq> 1"
    by (simp add: forced_nozzle_def)
  have b: "[6433713753386423 / 2251799813685248, 9007199254740991 / 9007199254740992,
             4825285315039817 / 2251799813685248] ! 1 \<noteq> (1::real)
   \<and> min_list [6433713753386423 / 2251799813685248, 9007199254740991 / 9007199254740992,
             4825285315039817 / 2251799813685248] \<noteq> (1::real)"
    by simp
  from forced_nozzle_init a forced_profile_ratios float_profile_ratios b show ?thesis by blast
qed

text \<open>
  C9, amended. For a nonempty float64 section law with areas between \<open>2\<^sup>-\<^sup>2\<^sup>5\<^sup>0\<close> and
  \<open>2\<^sup>2\<^sup>5\<^sup>0\<close> (and a forced \<^verbatim>\<open>AsoAc\<close>, if any, of absolute value in that range): the throat
  index is a valid index, the first at which the absolute value of AxoAc is least, and
  AxoAc[i] is the rounded quotient by section[-1] of the rounded product
  section[i] * AsoAc. With a forced \<^verbatim>\<open>AsoAc\<close>, AsoAc is that argument, and the value at
  the throat index is whatever these products give. Without it (\<^verbatim>\<open>None\<close>, or 0), AsoAc is
  the rounded section[-1] / min(section), the value at the throat index is the minimum
  of AxoAc, and it is 1 up to three roundings: between \<open>(1 - 2\<^sup>-\<^sup>5\<^sup>3)\<^sup>3\<close> and
  \<open>(1 + 2\<^sup>-\<^sup>5\<^sup>3)\<^sup>3\<close>. In this range no operation of lines 160 to 165 leaves the normal
  numbers of binary64 (every result has an absolute value between \<open>2\<^sup>-\<^sup>7\<^sup>5\<^sup>0\<close> and
  \<open>2\<^sup>1\<^sup>0\<^sup>0\<^sup>0\<close>), so \<open>fl64\<close> is the rounding the program performs.
\<close>
theorem throat_ratio_float64:
  assumes "section_ratios fl64 section AsoAc = Inr (As, Ax, it)"
    and "\<forall>s \<in> set section. 1 / 2 ^ 250 \<le> s \<and> s \<le> 2 ^ 250"
    and "\<forall>a. AsoAc = Some a \<longrightarrow> a = 0 \<or> (1 / 2 ^ 250 \<le> \<bar>a\<bar> \<and> \<bar>a\<bar> \<le> 2 ^ 250)"
  shows "it < length Ax \<and> length Ax = length section
    \<and> (\<forall>i < length section. Ax ! i = fl64 (fl64 (section ! i * As) / last section))
    \<and> \<bar>Ax ! it\<bar> = min_list (map abs Ax) \<and> (\<forall>j < it. \<bar>Ax ! it\<bar> < \<bar>Ax ! j\<bar>)
    \<and> (truthy AsoAc \<longrightarrow> As = the AsoAc)
    \<and> (\<not> truthy AsoAc \<longrightarrow> As = fl64 (last section / min_list section)
         \<and> Ax ! it = min_list Ax
         \<and> (1 - 1 / 2 ^ 53) ^ 3 \<le> Ax ! it \<and> Ax ! it \<le> (1 + 1 / 2 ^ 53) ^ 3)"
proof -
  note r = section_ratios_Inr [OF assms(1)]
  have len: "length Ax = length section" by (simp add: r(3))
  note a = argmin_Inr [OF r(4)]
  from a(1) have it: "it < length Ax" by simp
  have nth: "Ax ! i = fl64 (fl64 (section ! i * As) / last section)" if "i < length section" for i
    using that by (simp add: r(3))
  have amin: "\<bar>Ax ! it\<bar> = min_list (map abs Ax)" using a(2) it by simp
  have first: "\<bar>Ax ! it\<bar> < \<bar>Ax ! j\<bar>" if "j < it" for j
  proof -
    from that it have j: "j < length (map abs Ax)" by simp
    from a(3) [OF j] a(4) [OF that] that it show ?thesis by simp
  qed
  have unforced: "As = fl64 (last section / min_list section)
         \<and> Ax ! it = min_list Ax
         \<and> (1 - 1 / 2 ^ 53) ^ 3 \<le> Ax ! it \<and> Ax ! it \<le> (1 + 1 / 2 ^ 53) ^ 3"
    if nf: "\<not> truthy AsoAc"
  proof -
    define m where "m = min_list section"
    define l where "l = last section"
    have pos: "0 < s" if "s \<in> set section" for s
    proof -
      have "0 < 1 / (2::real) ^ 250" by simp
      with assms(2) that show ?thesis by force
    qed
    have mm: "m \<in> set section" unfolding m_def using r(1) by (rule min_list_mem)
    have mpos: "0 < m" and lpos: "0 < l" using pos mm r(1) by (simp_all add: l_def)
    have As: "As = fl64 (l / m)" using r(2) nf by (simp add: l_def m_def)
    have Ax: "Ax = map (\<lambda>s. fl64 (fl64 (s * As) / l)) section" by (simp add: r(3) l_def)
    have ent: "(1 - 1 / 2 ^ 53) ^ 3 \<le> b \<and> 0 < b" if "b \<in> set Ax" for b
    proof -
      from that obtain s where s: "s \<in> set section" and b: "b = fl64 (fl64 (s * As) / l)"
        unfolding Ax by auto
      from s have "m \<le> s" unfolding m_def by (rule min_list_le)
      from ratio_entry_bounds(1,3) [OF mpos lpos this As] show ?thesis by (simp add: b)
    qed
    have abs: "map abs Ax = Ax" using ent by (intro map_idI) force
    have "fl64 (fl64 (m * As) / l) \<in> set Ax" unfolding Ax using mm by force
    moreover have "fl64 (fl64 (m * As) / l) \<le> (1 + 1 / 2 ^ 53) ^ 3"
      by (rule ratio_entry_bounds(2) [OF mpos lpos _ As]) simp_all
    ultimately have up: "min_list Ax \<le> (1 + 1 / 2 ^ 53) ^ 3"
      using min_list_le [of "fl64 (fl64 (m * As) / l)" Ax] by linarith
    from a(2) it have eq: "Ax ! it = min_list Ax" by (simp add: abs)
    from it have "Ax ! it \<in> set Ax" by simp
    from ent [OF this] eq up As show ?thesis by (simp add: l_def m_def)
  qed
  have forced: "As = the AsoAc" if "truthy AsoAc" using r(2) that by simp
  from it len nth amin first unforced forced show ?thesis by blast
qed

text \<open>Both profiles above.\<close>
theorem throat_ratio_float64_witness:
  "section_ratios fl64 [2, 3152519739159347 / 4503599627370496, 3 / 2] None
     = Inr (4825285315039817 / 2251799813685248,
            [6433713753386423 / 2251799813685248, 9007199254740991 / 9007199254740992,
             4825285315039817 / 2251799813685248], 1)
   \<and> section_ratios fl64 [2, 1, 2] (Some 3) = Inr (3, [3, 3 / 2, 3], 1)
   \<and> \<not> truthy None \<and> truthy (Some 3)
   \<and> (1 - 1 / 2 ^ 53) ^ 3 \<le> [6433713753386423 / 2251799813685248,
         9007199254740991 / 9007199254740992, 4825285315039817 / 2251799813685248 :: real] ! 1
   \<and> [6433713753386423 / 2251799813685248, 9007199254740991 / 9007199254740992,
         4825285315039817 / 2251799813685248 :: real] ! 1 \<le> (1 + 1 / 2 ^ 53) ^ 3
   \<and> (3::real) = the (Some 3)"
proof -
  have r1: "\<forall>s \<in> set [2, 3152519739159347 / 4503599627370496, 3 / 2 :: real].
      1 / 2 ^ 250 \<le> s \<and> s \<le> 2 ^ 250"
    by simp
  have r2: "\<forall>s \<in> set [2, 1, 2 :: real]. 1 / 2 ^ 250 \<le> s \<and> s \<le> 2 ^ 250"
    by simp
  have f1: "\<forall>a::real. None = Some a \<longrightarrow> a = 0 \<or> (1 / 2 ^ 250 \<le> \<bar>a\<bar> \<and> \<bar>a\<bar> \<le> 2 ^ 250)"
    by simp
  have f2: "\<forall>a::real. Some 3 = Some a \<longrightarrow> a = 0 \<or> (1 / 2 ^ 250 \<le> \<bar>a\<bar> \<and> \<bar>a\<bar> \<le> 2 ^ 250)"
    by simp
  have t: "\<not> truthy None" "truthy (Some 3)" by simp_all
  note a = throat_ratio_float64 [OF float_profile_ratios r1 f1]
  note b = throat_ratio_float64 [OF forced_profile_ratios r2 f2]
  note a' = a [THEN conjunct2, THEN conjunct2, THEN conjunct2, THEN conjunct2, THEN conjunct2,
      THEN conjunct2, rule_format, OF t(1)]
  note b' = b [THEN conjunct2, THEN conjunct2, THEN conjunct2, THEN conjunct2, THEN conjunct2,
      THEN conjunct1, rule_format, OF t(2)]
  note c1 = a' [THEN conjunct2, THEN conjunct2, THEN conjunct1]
  note c2 = a' [THEN conjunct2, THEN conjunct2, THEN conjunct2]
  show ?thesis
    by (intro conjI float_profile_ratios forced_profile_ratios t c1 c2 b')
qed

section \<open>Accessors\<close>

text \<open>
  C10. For a nozzle built without an NPR (\<^verbatim>\<open>None\<close>, or 0), \<^verbatim>\<open>Mach()\<close>, \<^verbatim>\<open>Ps()\<close> and
  \<^verbatim>\<open>Ptot()\<close> raise (AttributeError: the attributes were never assigned). After a
  \<^verbatim>\<open>set_NPR(v)\<close> that returns, the three accessors return arrays of the length of the
  section law that do not depend on what the attributes held before the call, and
  whose every entry is the one \<^verbatim>\<open>set_NPR\<close> computes for \<open>v\<close>: the subsonic field below
  NPR0, the candidate field with Ptot = 1 at and above NPRsw, and between the two the
  candidate field before the shock index and the subsonic branch of the rescaled area
  ratios with Ptot = Ptloss from it on; Ps = Ptot / PtPs_Mach(Mach) throughout.
  \<^verbatim>\<open>set_NPR\<close> returns whenever the default gamma is not 1.
\<close>
theorem accessors_before_and_after_set_NPR:
  assumes "nozzle_init L dg x section AsoAc gamma NPR ref_rttot scale_ps = Inr n"
    and "\<not> truthy NPR"
  shows "Mach n = Inl AttributeError \<and> Ps n = Inl AttributeError \<and> Ptot n = Inl AttributeError
    \<and> (\<forall>dg' v n'. set_NPR L dg' n v = Inr n' \<longrightarrow>
          (\<exists>M P T. Mach n' = Inr M \<and> Ps n' = Inr P \<and> Ptot n' = Inr T
             \<and> length M = length section \<and> length P = length section
             \<and> length T = length section
             \<and> (\<forall>a b c. set_NPR L dg' (n\<lparr>nz_Pt := a, nz_M := b, nz_Ps := c\<rparr>) v = Inr n')
             \<and> (v < nz_NPR0 n \<longrightarrow> (\<forall>i < length section.
                   T ! i = 1
                 \<and> M ! i = MachSub_Sigma L
                       (nz_AxoAc n ! i / nz_AsoAc n * Sigma_Mach L (Mach_PtPs L v gamma) dg')
                       gamma
                 \<and> P ! i = 1 / PtPs_Mach L (M ! i) gamma))
             \<and> (nz_NPR0 n \<le> v \<and> nz_NPRsw n \<le> v \<longrightarrow> (\<forall>i < length section.
                   T ! i = 1
                 \<and> M ! i = (if i \<le> nz_ithroat n then MachSub_Sigma L (nz_AxoAc n ! i) gamma
                            else MachSup_Sigma L (nz_AxoAc n ! i) gamma)
                 \<and> P ! i = 1 / PtPs_Mach L (M ! i) dg'))
             \<and> (nz_NPR0 n \<le> v \<and> v < nz_NPRsw n \<longrightarrow>
                  (\<exists>Ms ish. Ms_from_AsAc_NPR L dg' (nz_AsoAc n) v = Inr Ms
                     \<and> argmin (map (\<lambda>m. \<bar>m - Mn_Pi_ratio L (PtPs_Mach L Ms dg' / v) dg'\<bar>)
                           (choked_field L n)) = Inr ish
                     \<and> ish < length section
                     \<and> (\<forall>i < length section.
                           T ! i = (if i < ish then 1 else PtPs_Mach L Ms dg' / v)
                         \<and> M ! i = (if i < ish
                              then (if i \<le> nz_ithroat n
                                    then MachSub_Sigma L (nz_AxoAc n ! i) gamma
                                    else MachSup_Sigma L (nz_AxoAc n ! i) gamma)
                              else MachSub_Sigma L
                                     (nz_AxoAc n ! i * Sigma_Mach L Ms dg' / nz_AsoAc n) dg')
                         \<and> P ! i = T ! i / PtPs_Mach L (M ! i) dg')))))
    \<and> (\<forall>dg' v. dg' \<noteq> 1 \<longrightarrow> (\<exists>n'. set_NPR L dg' n v = Inr n'))"
proof -
  note none = nozzle_init_no_NPR [OF assms]
  note len = length_AxoAc_init [OF assms(1)]
  note g = nozzle_init_Inr(6) [OF assms(1)]
  have ne: "nz_AxoAc n \<noteq> []" using len nozzle_init_Inr(1) [OF assms(1)] by auto
  have 1: "Mach n = Inl AttributeError \<and> Ps n = Inl AttributeError \<and> Ptot n = Inl AttributeError"
    by (simp add: Mach_def Ps_def Ptot_def none)
  have 2: "\<exists>M P T. Mach n' = Inr M \<and> Ps n' = Inr P \<and> Ptot n' = Inr T
             \<and> length M = length section \<and> length P = length section
             \<and> length T = length section
             \<and> (\<forall>a b c. set_NPR L dg' (n\<lparr>nz_Pt := a, nz_M := b, nz_Ps := c\<rparr>) v = Inr n')
             \<and> (v < nz_NPR0 n \<longrightarrow> (\<forall>i < length section.
                   T ! i = 1
                 \<and> M ! i = MachSub_Sigma L
                       (nz_AxoAc n ! i / nz_AsoAc n * Sigma_Mach L (Mach_PtPs L v gamma) dg')
                       gamma
                 \<and> P ! i = 1 / PtPs_Mach L (M ! i) gamma))
             \<and> (nz_NPR0 n \<le> v \<and> nz_NPRsw n \<le> v \<longrightarrow> (\<forall>i < length section.
                   T ! i = 1
                 \<and> M ! i = (if i \<le> nz_ithroat n then MachSub_Sigma L (nz_AxoAc n ! i) gamma
                            else MachSup_Sigma L (nz_AxoAc n ! i) gamma)
                 \<and> P ! i = 1 / PtPs_Mach L (M ! i) dg'))
             \<and> (nz_NPR0 n \<le> v \<and> v < nz_NPRsw n \<longrightarrow>
                  (\<exists>Ms ish. Ms_from_AsAc_NPR L dg' (nz_AsoAc n) v = Inr Ms
                     \<and> argmin (map (\<lambda>m. \<bar>m - Mn_Pi_ratio L (PtPs_Mach L Ms dg' / v) dg'\<bar>)
                           (choked_field L n)) = Inr ish
                     \<and> ish < length section
                     \<and> (\<forall>i < length section.
                           T ! i = (if i < ish then 1 else PtPs_Mach L Ms dg' / v)
                         \<and> M ! i = (if i < ish
                              then (if i \<le> nz_ithroat n
                                    then MachSub_Sigma L (nz_AxoAc n ! i) gamma
                                    else MachSup_Sigma L (nz_AxoAc n ! i) gamma)
                              else MachSub_Sigma L
                                     (nz_AxoAc n ! i * Sigma_Mach L Ms dg' / nz_AsoAc n) dg')
                         \<and> P ! i = T ! i / PtPs_Mach L (M ! i) dg')))"
    if "set_NPR L dg' n v = Inr n'" for dg' v n'
  proof -
    from set_NPR_values [OF that, unfolded len g] obtain M P T where
      f: "nz_M n' = Some M" "nz_Ps n' = Some P" "nz_Pt n' = Some T"
      and rest: "length M = length section \<and> length P = length section
             \<and> length T = length section
             \<and> (v < nz_NPR0 n \<longrightarrow> (\<forall>i < length section.
                   T ! i = 1
                 \<and> M ! i = MachSub_Sigma L
                       (nz_AxoAc n ! i / nz_AsoAc n * Sigma_Mach L (Mach_PtPs L v gamma) dg')
                       gamma
                 \<and> P ! i = 1 / PtPs_Mach L (M ! i) gamma))
             \<and> (nz_NPR0 n \<le> v \<and> nz_NPRsw n \<le> v \<longrightarrow> (\<forall>i < length section.
                   T ! i = 1
                 \<and> M ! i = (if i \<le> nz_ithroat n then MachSub_Sigma L (nz_AxoAc n ! i) gamma
                            else MachSup_Sigma L (nz_AxoAc n ! i) gamma)
                 \<and> P ! i = 1 / PtPs_Mach L (M ! i) dg'))
             \<and> (nz_NPR0 n \<le> v \<and> v < nz_NPRsw n \<longrightarrow>
                  (\<exists>Ms ish. Ms_from_AsAc_NPR L dg' (nz_AsoAc n) v = Inr Ms
                     \<and> argmin (map (\<lambda>m. \<bar>m - Mn_Pi_ratio L (PtPs_Mach L Ms dg' / v) dg'\<bar>)
                           (choked_field L n)) = Inr ish
                     \<and> ish < length section
                     \<and> (\<forall>i < length section.
                           T ! i = (if i < ish then 1 else PtPs_Mach L Ms dg' / v)
                         \<and> M ! i = (if i < ish
                              then (if i \<le> nz_ithroat n
                                    then MachSub_Sigma L (nz_AxoAc n ! i) gamma
                                    else MachSup_Sigma L (nz_AxoAc n ! i) gamma)
                              else MachSub_Sigma L
                                     (nz_AxoAc n ! i * Sigma_Mach L Ms dg' / nz_AsoAc n) dg')
                         \<and> P ! i = T ! i / PtPs_Mach L (M ! i) dg')))"
      by blast
    have acc: "Mach n' = Inr M" "Ps n' = Inr P" "Ptot n' = Inr T"
      by (simp_all add: Mach_def Ps_def Ptot_def f)
    have ow: "\<forall>a b c. set_NPR L dg' (n\<lparr>nz_Pt := a, nz_M := b, nz_Ps := c\<rparr>) v = Inr n'"
      using that by (simp add: set_NPR_overwrites)
    from acc ow rest show ?thesis by blast
  qed
  have 3: "\<exists>n'. set_NPR L dg' n v = Inr n'" if "dg' \<noteq> 1" for dg' v
    using ne that by (rule set_NPR_total)
  from 1 2 3 show ?thesis by blast
qed

lemma sample_set_NPR_supersonic:
  "set_NPR sample_relations (14 / 10) sample_nozzle 4 = Inr (sample_nozzle
     \<lparr>nz_Pt := Some [1, 1, 1, 1], nz_M := Some [1 / 2, 1, 3 / 2, 2],
      nz_Ps := Some [5 / 8, 5 / 11, 5 / 14, 5 / 17]\<rparr>)"
  by (simp add: set_NPR_def choked_field_def sample_nozzle_def sample_relations_def Let_def)

text \<open>The sample nozzle before and after \<^verbatim>\<open>set_NPR(4)\<close>, station 2.\<close>
theorem accessors_before_and_after_set_NPR_witness:
  "nozzle_init sample_relations (14 / 10) [0, 1, 2, 3] [2, 1, 3 / 2, 2] None (14 / 10) None 1 1
     = Inr sample_nozzle
   \<and> \<not> truthy None
   \<and> Mach sample_nozzle = Inl AttributeError \<and> Ps sample_nozzle = Inl AttributeError
   \<and> Ptot sample_nozzle = Inl AttributeError
   \<and> set_NPR sample_relations (14 / 10) sample_nozzle 4 = Inr (sample_nozzle
       \<lparr>nz_Pt := Some [1, 1, 1, 1], nz_M := Some [1 / 2, 1, 3 / 2, 2],
        nz_Ps := Some [5 / 8, 5 / 11, 5 / 14, 5 / 17]\<rparr>)
   \<and> nz_NPR0 sample_nozzle \<le> 4 \<and> nz_NPRsw sample_nozzle \<le> 4
   \<and> (\<exists>M P T. Mach (sample_nozzle
         \<lparr>nz_Pt := Some [1, 1, 1, 1], nz_M := Some [1 / 2, 1, 3 / 2, 2],
          nz_Ps := Some [5 / 8, 5 / 11, 5 / 14, 5 / 17]\<rparr>) = Inr M
        \<and> Ps (sample_nozzle
         \<lparr>nz_Pt := Some [1, 1, 1, 1], nz_M := Some [1 / 2, 1, 3 / 2, 2],
          nz_Ps := Some [5 / 8, 5 / 11, 5 / 14, 5 / 17]\<rparr>) = Inr P
        \<and> Ptot (sample_nozzle
         \<lparr>nz_Pt := Some [1, 1, 1, 1], nz_M := Some [1 / 2, 1, 3 / 2, 2],
          nz_Ps := Some [5 / 8, 5 / 11, 5 / 14, 5 / 17]\<rparr>) = Inr T
        \<and> M = [1 / 2, 1, 3 / 2, 2] \<and> P = [5 / 8, 5 / 11, 5 / 14, 5 / 17] \<and> T = [1, 1, 1, 1]
        \<and> T ! 2 = 1
        \<and> M ! 2 = (if 2 \<le> nz_ithroat sample_nozzle
                   then MachSub_Sigma sample_relations (nz_AxoAc sample_nozzle ! 2) (14 / 10)
                   else MachSup_Sigma sample_relations (nz_AxoAc sample_nozzle ! 2) (14 / 10))
        \<and> P ! 2 = 1 / PtPs_Mach sample_relations (M ! 2) (14 / 10))"
proof -
  have b: "\<not> truthy None" by simp
  have r: "nz_NPR0 sample_nozzle \<le> 4 \<and> nz_NPRsw sample_nozzle \<le> 4"
    by (simp add: sample_nozzle_def)
  note t = accessors_before_and_after_set_NPR [OF sample_nozzle_init b]
  from t [THEN conjunct2, THEN conjunct2, THEN conjunct2, THEN conjunct1, rule_format,
      OF sample_set_NPR_supersonic]
  obtain M P T where
    acc: "Mach (sample_nozzle
         \<lparr>nz_Pt := Some [1, 1, 1, 1], nz_M := Some [1 / 2, 1, 3 / 2, 2],
          nz_Ps := Some [5 / 8, 5 / 11, 5 / 14, 5 / 17]\<rparr>) = Inr M"
      "Ps (sample_nozzle
         \<lparr>nz_Pt := Some [1, 1, 1, 1], nz_M := Some [1 / 2, 1, 3 / 2, 2],
          nz_Ps := Some [5 / 8, 5 / 11, 5 / 14, 5 / 17]\<rparr>) = Inr P"
      "Ptot (sample_nozzle
         \<lparr>nz_Pt := Some [1, 1, 1, 1], nz_M := Some [1 / 2, 1, 3 / 2, 2],
          nz_Ps := Some [5 / 8, 5 / 11, 5 / 14, 5 / 17]\<rparr>) = Inr T"
    and sup: "nz_NPR0 sample_nozzle \<le> 4 \<and> nz_NPRsw sample_nozzle \<le> 4 \<longrightarrow>
       (\<forall>i < length [2, 1, 3 / 2, 2 :: real].
           T ! i = 1
         \<and> M ! i = (if i \<le> nz_ithroat sample_nozzle
                    then MachSub_Sigma sample_relations (nz_AxoAc sample_nozzle ! i) (14 / 10)
                    else MachSup_Sigma sample_relations (nz_AxoAc sample_nozzle ! i) (14 / 10))
         \<and> P ! i = 1 / PtPs_Mach sample_relations (M ! i) (14 / 10))"
    by blast
  from acc have e: "M = [1 / 2, 1, 3 / 2, 2]" "P = [5 / 8, 5 / 11, 5 / 14, 5 / 17]"
    "T = [1, 1, 1, 1]"
    by (simp_all add: Mach_def Ps_def Ptot_def)
  have "(2::nat) < length [2, 1, 3 / 2, 2 :: real]" by simp
  with sup r have v: "T ! 2 = 1
        \<and> M ! 2 = (if 2 \<le> nz_ithroat sample_nozzle
                   then MachSub_Sigma sample_relations (nz_AxoAc sample_nozzle ! 2) (14 / 10)
                   else MachSup_Sigma sample_relations (nz_AxoAc sample_nozzle ! 2) (14 / 10))
        \<and> P ! 2 = 1 / PtPs_Mach sample_relations (M ! 2) (14 / 10)"
    by blast
  from t [THEN conjunct1] t [THEN conjunct2, THEN conjunct1]
    t [THEN conjunct2, THEN conjunct2, THEN conjunct1]
    sample_nozzle_init b sample_set_NPR_supersonic r acc e v
  show ?thesis by blast
qed

section \<open>Shock in the diverging section\<close>

lemma closed_form_branch:
  assumes "NPR_Ms_list L dg AsAc = (NPR0, NPRsw, NPR1, Msub, Msh, Msup)"
    and "NPR0 \<le> NPR" and "NPR \<le> NPRsw" and "Ms_from_AsAc_NPR L dg AsAc NPR = Inr Ms"
  shows "dg \<noteq> 1"
    and "Ms = sqrt ((sqrt (1 + 2 * (dg - 1) *
              (NPR / AsAc / ((dg + 1) / 2) powr ((dg + 1) / (2 * (dg - 1))))\<^sup>2) - 1) / (dg - 1))"
proof -
  have e: "(dg + 1) / 2 / (dg - 1) = (dg + 1) / (2 * (dg - 1))" by simp
  from assms show "dg \<noteq> 1"
    by (auto simp add: Ms_from_AsAc_NPR_def Let_def split: if_splits)
  from assms show "Ms = sqrt ((sqrt (1 + 2 * (dg - 1) *
              (NPR / AsAc / ((dg + 1) / 2) powr ((dg + 1) / (2 * (dg - 1))))\<^sup>2) - 1) / (dg - 1))"
    by (auto simp add: Ms_from_AsAc_NPR_def Let_def e power2_eq_square mult.assoc
        split: if_splits)
qed

text \<open>
  C4. What \<^verbatim>\<open>set_NPR\<close> does when NPR0 \<open>\<le>\<close> NPR < NPRsw. Ms is the result of
  \<^verbatim>\<open>Ms_from_AsAc_NPR\<close> (its closed form when the stored thresholds are those of the
  default gas at the call), Ptloss = PtPs_Mach(Ms) / NPR and Msh = Mn_Pi_ratio(Ptloss).
  The shock index ish is the first index at which the candidate field is nearest to
  Msh, and the search runs over every station: those up to the throat, where the
  candidate field holds the subsonic branch, as well as those after it, which hold the
  supersonic branch. From ish on, Mach is
  MachSub_Sigma(AxoAc[i] * Sigma_Mach(Ms) / AsoAc) and Ptot is Ptloss; before ish, Mach
  is the candidate field and Ptot is 1.
\<close>
theorem set_NPR_shock_index:
  assumes "nz_NPR0 n \<le> NPR" and "NPR < nz_NPRsw n" and "set_NPR L dg n NPR = Inr n'"
  shows "\<exists>Ms Ptloss Msh ish M T.
      Ms_from_AsAc_NPR L dg (nz_AsoAc n) NPR = Inr Ms
    \<and> (NPR_Ms_list L dg (nz_AsoAc n)
          = (nz_NPR0 n, nz_NPRsw n, nz_NPR1 n, nz_Msub n, nz_Msh n, nz_Msup n) \<longrightarrow>
        Ms = sqrt ((sqrt (1 + 2 * (dg - 1) *
              (NPR / nz_AsoAc n / ((dg + 1) / 2) powr ((dg + 1) / (2 * (dg - 1))))\<^sup>2) - 1)
              / (dg - 1)))
    \<and> Ptloss = PtPs_Mach L Ms dg / NPR
    \<and> Msh = Mn_Pi_ratio L Ptloss dg
    \<and> ish < length (nz_AxoAc n)
    \<and> (\<forall>j < length (nz_AxoAc n).
          \<bar>choked_field L n ! ish - Msh\<bar> \<le> \<bar>choked_field L n ! j - Msh\<bar>)
    \<and> (\<forall>j < ish. \<bar>choked_field L n ! ish - Msh\<bar> < \<bar>choked_field L n ! j - Msh\<bar>)
    \<and> (\<forall>j < length (nz_AxoAc n). choked_field L n ! j =
          (if j \<le> nz_ithroat n then MachSub_Sigma L (nz_AxoAc n ! j) (nz_gamma n)
           else MachSup_Sigma L (nz_AxoAc n ! j) (nz_gamma n)))
    \<and> nz_M n' = Some M \<and> nz_Pt n' = Some T
    \<and> length M = length (nz_AxoAc n) \<and> length T = length (nz_AxoAc n)
    \<and> (\<forall>i < length (nz_AxoAc n).
          M ! i = (if i < ish then choked_field L n ! i
                   else MachSub_Sigma L (nz_AxoAc n ! i * Sigma_Mach L Ms dg / nz_AsoAc n) dg)
        \<and> T ! i = (if i < ish then 1 else Ptloss))"
proof -
  from assms(1) have not_sub: "\<not> NPR < nz_NPR0 n" by simp
  from set_NPR_shock [OF not_sub assms(2,3)] obtain Ms ish where
    Ms: "Ms_from_AsAc_NPR L dg (nz_AsoAc n) NPR = Inr Ms"
    and ish: "argmin (map (\<lambda>m. \<bar>m - Mn_Pi_ratio L (PtPs_Mach L Ms dg / NPR) dg\<bar>) (choked_field L n))
              = Inr ish"
    and n': "n' = n
      \<lparr>nz_Pt := Some (take ish (map (\<lambda>_. 1) (nz_AxoAc n))
                 @ replicate (length (nz_AxoAc n) - ish) (PtPs_Mach L Ms dg / NPR)),
       nz_M := Some (take ish (choked_field L n)
                 @ map (\<lambda>a. MachSub_Sigma L (a * Sigma_Mach L Ms dg / nz_AsoAc n) dg)
                     (drop ish (nz_AxoAc n))),
       nz_Ps := Some (map2 (\<lambda>p m. p / PtPs_Mach L m dg)
                 (take ish (map (\<lambda>_. 1) (nz_AxoAc n))
                    @ replicate (length (nz_AxoAc n) - ish) (PtPs_Mach L Ms dg / NPR))
                 (take ish (choked_field L n)
                    @ map (\<lambda>a. MachSub_Sigma L (a * Sigma_Mach L Ms dg / nz_AsoAc n) dg)
                        (drop ish (nz_AxoAc n))))\<rparr>"
    by blast
  define Ptloss where "Ptloss = PtPs_Mach L Ms dg / NPR"
  define Msh where "Msh = Mn_Pi_ratio L Ptloss dg"
  define T where "T = take ish (map (\<lambda>_. 1) (nz_AxoAc n))
                 @ replicate (length (nz_AxoAc n) - ish) Ptloss"
  define M where "M = take ish (choked_field L n)
                 @ map (\<lambda>a. MachSub_Sigma L (a * Sigma_Mach L Ms dg / nz_AsoAc n) dg)
                     (drop ish (nz_AxoAc n))"
  note a = argmin_Inr [OF ish [folded Ptloss_def Msh_def]]
  from a(1) have ilt: "ish < length (nz_AxoAc n)" by simp
  have cl: "Ms = sqrt ((sqrt (1 + 2 * (dg - 1) *
              (NPR / nz_AsoAc n / ((dg + 1) / 2) powr ((dg + 1) / (2 * (dg - 1))))\<^sup>2) - 1)
              / (dg - 1))"
    if "NPR_Ms_list L dg (nz_AsoAc n)
          = (nz_NPR0 n, nz_NPRsw n, nz_NPR1 n, nz_Msub n, nz_Msh n, nz_Msup n)"
    using that assms(1) _ Ms by (rule closed_form_branch(2)) (use assms(2) in simp)
  have near: "\<bar>choked_field L n ! ish - Msh\<bar> \<le> \<bar>choked_field L n ! j - Msh\<bar>"
    if "j < length (nz_AxoAc n)" for j
    using a(3) [of j] that ilt by simp
  have first: "\<bar>choked_field L n ! ish - Msh\<bar> < \<bar>choked_field L n ! j - Msh\<bar>"
    if "j < ish" for j
  proof -
    from that ilt have "j < length (nz_AxoAc n)" by simp
    from near [OF this] a(4) [OF that] that ilt show ?thesis by simp
  qed
  have fields: "nz_M n' = Some M" "nz_Pt n' = Some T"
    unfolding n' M_def T_def Ptloss_def by simp_all
  have lens: "length M = length (nz_AxoAc n)" "length T = length (nz_AxoAc n)"
    using ilt by (simp_all add: M_def T_def)
  have nth: "M ! i = (if i < ish then choked_field L n ! i
                   else MachSub_Sigma L (nz_AxoAc n ! i * Sigma_Mach L Ms dg / nz_AsoAc n) dg)
        \<and> T ! i = (if i < ish then 1 else Ptloss)"
    if "i < length (nz_AxoAc n)" for i
    unfolding M_def T_def
    by (simp only: shock_arrays_nth [OF ilt length_choked_field that])
  from cl Ms Ptloss_def Msh_def ilt near first fields lens nth choked_field_nth [of _ n L]
  show ?thesis by (intro exI [of _ Ms] exI [of _ Ptloss] exI [of _ Msh] exI [of _ ish]
        exI [of _ M] exI [of _ T]) simp
qed

subsection \<open>The sample nozzles under set_NPR\<close>

lemma sample_Ms:
  "Ms_from_AsAc_NPR sample_relations (14 / 10) 2 (7452 / 3025) = Inr (15 / 22)"
proof -
  have h: "NPR_Ms_list sample_relations (14 / 10) 2 = (16 / 10, 32 / 10, 34 / 10, 1 / 2, 1 / 2, 2)"
    by (simp add: sample_thresholds)
  have r: "(16 / 10 :: real) \<le> 7452 / 3025" "(7452 / 3025 :: real) \<le> 32 / 10" by simp_all
  have "\<exists>Ms. Ms_from_AsAc_NPR sample_relations (14 / 10) 2 (7452 / 3025) = Inr Ms"
    by (rule Ms_from_AsAc_NPR_total) simp
  then obtain Ms where Ms: "Ms_from_AsAc_NPR sample_relations (14 / 10) 2 (7452 / 3025) = Inr Ms" ..
  have p: "((14 / 10 + 1) / 2 :: real) powr ((14 / 10 + 1) / (2 * (14 / 10 - 1))) = 216 / 125"
  proof -
    have "((14 / 10 + 1) / (2 * (14 / 10 - 1)) :: real) = 3" by simp
    moreover have "((14 / 10 + 1) / 2 :: real) powr 3 = ((14 / 10 + 1) / 2) ^ 3"
      by (rule powr_numeral) simp
    ultimately show ?thesis by (simp add: power3_eq_cube)
  qed
  have s1: "sqrt (1 + 2 * (14 / 10 - 1) * (7452 / 3025 / 2 / (216 / 125))\<^sup>2) = (287 / 242 :: real)"
    by (rule real_sqrt_unique) (simp_all add: power2_eq_square)
  have s2: "sqrt ((287 / 242 - 1) / (14 / 10 - 1)) = (15 / 22 :: real)"
    by (rule real_sqrt_unique) (simp_all add: power2_eq_square)
  from closed_form_branch(2) [OF h r Ms] have "Ms = 15 / 22"
    by (simp only: p s1 s2)
  with Ms show ?thesis by simp
qed

lemma sample_set_NPR_subsonic:
  "set_NPR sample_relations (14 / 10) sample_nozzle (3 / 2) = Inr (sample_nozzle
     \<lparr>nz_Pt := Some [1, 1, 1, 1], nz_M := Some [5 / 12, 5 / 6, 5 / 9, 5 / 12],
      nz_Ps := Some [2 / 3, 1 / 2, 3 / 5, 2 / 3]\<rparr>)"
  by (simp add: set_NPR_def sample_nozzle_def sample_relations_def Let_def)

lemma short_set_NPR_shock:
  "set_NPR sample_relations (14 / 10) short_nozzle (7452 / 3025) = Inr (short_nozzle
     \<lparr>nz_Pt := Some [1, 1375 / 1863, 1375 / 1863], nz_M := Some [1 / 2, 15 / 11, 15 / 22],
      nz_Ps := Some [5 / 8, 15125 / 54027, 3025 / 7452]\<rparr>)"
proof -
  have Ms: "Ms_from_AsAc_NPR sample_relations (14 / 10) (nz_AsoAc short_nozzle) (7452 / 3025)
      = Inr (15 / 22)"
    using sample_Ms by (simp add: short_nozzle_def)
  have cf: "choked_field sample_relations short_nozzle = [1 / 2, 1, 2]"
    by (simp add: choked_field_def short_nozzle_def sample_relations_def Let_def)
  show ?thesis
    unfolding set_NPR_def Let_def Ms cf
    by (simp add: argmin_def short_nozzle_def sample_relations_def)
qed

text \<open>The sample nozzle below NPR0 (NPR = 3/2) and above NPRsw (NPR = 4), station 2.\<close>
theorem set_NPR_field_witness:
  "set_NPR sample_relations (14 / 10) sample_nozzle (3 / 2) = Inr (sample_nozzle
     \<lparr>nz_Pt := Some [1, 1, 1, 1], nz_M := Some [5 / 12, 5 / 6, 5 / 9, 5 / 12],
      nz_Ps := Some [2 / 3, 1 / 2, 3 / 5, 2 / 3]\<rparr>)
   \<and> set_NPR sample_relations (14 / 10) sample_nozzle 4 = Inr (sample_nozzle
     \<lparr>nz_Pt := Some [1, 1, 1, 1], nz_M := Some [1 / 2, 1, 3 / 2, 2],
      nz_Ps := Some [5 / 8, 5 / 11, 5 / 14, 5 / 17]\<rparr>)
   \<and> (2::nat) < length (nz_AxoAc sample_nozzle)
   \<and> 3 / 2 < nz_NPR0 sample_nozzle
   \<and> nz_NPR0 sample_nozzle \<le> 4 \<and> nz_NPRsw sample_nozzle \<le> 4
   \<and> [5 / 12, 5 / 6, 5 / 9, 5 / 12] ! 2 = MachSub_Sigma sample_relations
        (nz_AxoAc sample_nozzle ! 2 / nz_AsoAc sample_nozzle
           * Sigma_Mach sample_relations
               (Mach_PtPs sample_relations (3 / 2) (nz_gamma sample_nozzle)) (14 / 10))
        (nz_gamma sample_nozzle)
   \<and> [2 / 3, 1 / 2, 3 / 5, 2 / 3] ! 2
        = [1, 1, 1, 1] ! 2
          / PtPs_Mach sample_relations ([5 / 12, 5 / 6, 5 / 9, 5 / 12] ! 2) (nz_gamma sample_nozzle)
   \<and> [1 / 2, 1, 3 / 2, 2] = choked_field sample_relations sample_nozzle
   \<and> [5 / 8, 5 / 11, 5 / 14, 5 / 17] ! 2
        = [1, 1, 1, 1] ! 2 / PtPs_Mach sample_relations ([1 / 2, 1, 3 / 2, 2] ! 2) (14 / 10)"
proof -
  have i: "(2::nat) < length (nz_AxoAc sample_nozzle)" by (simp add: sample_nozzle_def)
  have r: "3 / 2 < nz_NPR0 sample_nozzle" "nz_NPR0 sample_nozzle \<le> 4"
    "nz_NPRsw sample_nozzle \<le> 4"
    by (simp_all add: sample_nozzle_def)
  from set_NPR_field [OF sample_set_NPR_subsonic i] obtain M P T where
    M: "nz_M (sample_nozzle
     \<lparr>nz_Pt := Some [1, 1, 1, 1], nz_M := Some [5 / 12, 5 / 6, 5 / 9, 5 / 12],
      nz_Ps := Some [2 / 3, 1 / 2, 3 / 5, 2 / 3]\<rparr>) = Some M"
    and P: "nz_Ps (sample_nozzle
     \<lparr>nz_Pt := Some [1, 1, 1, 1], nz_M := Some [5 / 12, 5 / 6, 5 / 9, 5 / 12],
      nz_Ps := Some [2 / 3, 1 / 2, 3 / 5, 2 / 3]\<rparr>) = Some P"
    and T: "nz_Pt (sample_nozzle
     \<lparr>nz_Pt := Some [1, 1, 1, 1], nz_M := Some [5 / 12, 5 / 6, 5 / 9, 5 / 12],
      nz_Ps := Some [2 / 3, 1 / 2, 3 / 5, 2 / 3]\<rparr>) = Some T"
    and sub: "3 / 2 < nz_NPR0 sample_nozzle \<longrightarrow>
            M ! 2 = MachSub_Sigma sample_relations
                (nz_AxoAc sample_nozzle ! 2 / nz_AsoAc sample_nozzle
                   * Sigma_Mach sample_relations
                       (Mach_PtPs sample_relations (3 / 2) (nz_gamma sample_nozzle)) (14 / 10))
                (nz_gamma sample_nozzle)
          \<and> P ! 2 = T ! 2 / PtPs_Mach sample_relations (M ! 2) (nz_gamma sample_nozzle)"
    by blast
  from M P T have e: "M = [5 / 12, 5 / 6, 5 / 9, 5 / 12]" "P = [2 / 3, 1 / 2, 3 / 5, 2 / 3]"
    "T = [1, 1, 1, 1]"
    by simp_all
  from sub r(1) have 1: "[5 / 12, 5 / 6, 5 / 9, 5 / 12] ! 2 = MachSub_Sigma sample_relations
        (nz_AxoAc sample_nozzle ! 2 / nz_AsoAc sample_nozzle
           * Sigma_Mach sample_relations
               (Mach_PtPs sample_relations (3 / 2) (nz_gamma sample_nozzle)) (14 / 10))
        (nz_gamma sample_nozzle)
     \<and> [2 / 3, 1 / 2, 3 / 5, 2 / 3] ! 2
        = [1, 1, 1, 1] ! 2
          / PtPs_Mach sample_relations ([5 / 12, 5 / 6, 5 / 9, 5 / 12] ! 2) (nz_gamma sample_nozzle)"
    unfolding e by blast
  from set_NPR_field [OF sample_set_NPR_supersonic i] obtain M' P' T' where
    M': "nz_M (sample_nozzle
     \<lparr>nz_Pt := Some [1, 1, 1, 1], nz_M := Some [1 / 2, 1, 3 / 2, 2],
      nz_Ps := Some [5 / 8, 5 / 11, 5 / 14, 5 / 17]\<rparr>) = Some M'"
    and P': "nz_Ps (sample_nozzle
     \<lparr>nz_Pt := Some [1, 1, 1, 1], nz_M := Some [1 / 2, 1, 3 / 2, 2],
      nz_Ps := Some [5 / 8, 5 / 11, 5 / 14, 5 / 17]\<rparr>) = Some P'"
    and T': "nz_Pt (sample_nozzle
     \<lparr>nz_Pt := Some [1, 1, 1, 1], nz_M := Some [1 / 2, 1, 3 / 2, 2],
      nz_Ps := Some [5 / 8, 5 / 11, 5 / 14, 5 / 17]\<rparr>) = Some T'"
    and ch: "nz_NPR0 sample_nozzle \<le> 4 \<longrightarrow>
          P' ! 2 = T' ! 2 / PtPs_Mach sample_relations (M' ! 2) (14 / 10)"
    and kept: "nz_NPR0 sample_nozzle \<le> 4 \<and> nz_NPRsw sample_nozzle \<le> 4 \<longrightarrow>
          M' = choked_field sample_relations sample_nozzle"
    by blast
  from M' P' T' have e': "M' = [1 / 2, 1, 3 / 2, 2]" "P' = [5 / 8, 5 / 11, 5 / 14, 5 / 17]"
    "T' = [1, 1, 1, 1]"
    by simp_all
  from ch kept r(2,3) have 2: "[1 / 2, 1, 3 / 2, 2] = choked_field sample_relations sample_nozzle
     \<and> [5 / 8, 5 / 11, 5 / 14, 5 / 17] ! 2
        = [1, 1, 1, 1] ! 2 / PtPs_Mach sample_relations ([1 / 2, 1, 3 / 2, 2] ! 2) (14 / 10)"
    unfolding e' by blast
  from sample_set_NPR_subsonic sample_set_NPR_supersonic i r 1 2 show ?thesis by blast
qed

text \<open>
  The three-station nozzle [2, 1, 2] with the sample relations at NPR = 7452/3025: the
  shock index is 1, the throat, a station of the subsonic branch; the only station
  with a supersonic-branch Mach is 2.
\<close>
theorem set_NPR_shock_index_witness:
  "nz_NPR0 short_nozzle \<le> 7452 / 3025 \<and> 7452 / 3025 < nz_NPRsw short_nozzle
   \<and> set_NPR sample_relations (14 / 10) short_nozzle (7452 / 3025) = Inr (short_nozzle
       \<lparr>nz_Pt := Some [1, 1375 / 1863, 1375 / 1863], nz_M := Some [1 / 2, 15 / 11, 15 / 22],
        nz_Ps := Some [5 / 8, 15125 / 54027, 3025 / 7452]\<rparr>)
   \<and> nz_ithroat short_nozzle = 1
   \<and> choked_field sample_relations short_nozzle = [1 / 2, 1, 2]
   \<and> (\<exists>Ms ish. Ms_from_AsAc_NPR sample_relations (14 / 10) (nz_AsoAc short_nozzle)
           (7452 / 3025) = Inr Ms
        \<and> Ms = 15 / 22
        \<and> ish = 1
        \<and> \<bar>choked_field sample_relations short_nozzle ! ish
             - Mn_Pi_ratio sample_relations
                 (PtPs_Mach sample_relations Ms (14 / 10) / (7452 / 3025)) (14 / 10)\<bar>
           \<le> \<bar>choked_field sample_relations short_nozzle ! 2
             - Mn_Pi_ratio sample_relations
                 (PtPs_Mach sample_relations Ms (14 / 10) / (7452 / 3025)) (14 / 10)\<bar>
        \<and> choked_field sample_relations short_nozzle ! ish
           = MachSub_Sigma sample_relations (nz_AxoAc short_nozzle ! ish) (nz_gamma short_nozzle))"
proof -
  have r: "nz_NPR0 short_nozzle \<le> 7452 / 3025" "7452 / 3025 < nz_NPRsw short_nozzle"
    by (simp_all add: short_nozzle_def)
  have it: "nz_ithroat short_nozzle = 1" and As: "nz_AsoAc short_nozzle = 2"
    and len: "length (nz_AxoAc short_nozzle) = 3"
    by (simp_all add: short_nozzle_def)
  have cf: "choked_field sample_relations short_nozzle = [1 / 2, 1, 2]"
    by (simp add: choked_field_def short_nozzle_def sample_relations_def Let_def)
  from set_NPR_shock_index [OF r short_set_NPR_shock]
  obtain Ms Ptloss Msh ish M T where
    Ms: "Ms_from_AsAc_NPR sample_relations (14 / 10) (nz_AsoAc short_nozzle) (7452 / 3025)
              = Inr Ms"
    and Pl: "Ptloss = PtPs_Mach sample_relations Ms (14 / 10) / (7452 / 3025)"
    and Msh: "Msh = Mn_Pi_ratio sample_relations Ptloss (14 / 10)"
    and near: "\<forall>j < length (nz_AxoAc short_nozzle).
          \<bar>choked_field sample_relations short_nozzle ! ish - Msh\<bar>
            \<le> \<bar>choked_field sample_relations short_nozzle ! j - Msh\<bar>"
    and cfn: "\<forall>j < length (nz_AxoAc short_nozzle).
          choked_field sample_relations short_nozzle ! j =
          (if j \<le> nz_ithroat short_nozzle
           then MachSub_Sigma sample_relations (nz_AxoAc short_nozzle ! j) (nz_gamma short_nozzle)
           else MachSup_Sigma sample_relations (nz_AxoAc short_nozzle ! j) (nz_gamma short_nozzle))"
    and T: "nz_Pt (short_nozzle
       \<lparr>nz_Pt := Some [1, 1375 / 1863, 1375 / 1863], nz_M := Some [1 / 2, 15 / 11, 15 / 22],
        nz_Ps := Some [5 / 8, 15125 / 54027, 3025 / 7452]\<rparr>) = Some T"
    and nth: "\<forall>i < length (nz_AxoAc short_nozzle).
          M ! i = (if i < ish then choked_field sample_relations short_nozzle ! i
                   else MachSub_Sigma sample_relations
                     (nz_AxoAc short_nozzle ! i * Sigma_Mach sample_relations Ms (14 / 10)
                        / nz_AsoAc short_nozzle) (14 / 10))
        \<and> T ! i = (if i < ish then 1 else Ptloss)"
    by blast
  from T have T': "T = [1, 1375 / 1863, 1375 / 1863]" by simp
  from Ms sample_Ms have Ms': "Ms = 15 / 22" by (simp add: As)
  have Pl': "Ptloss = 1375 / 1863" by (simp add: Pl Ms' sample_relations_def)
  from nth have "T ! 0 = (if 0 < ish then 1 else Ptloss)" "T ! 1 = (if 1 < ish then 1 else Ptloss)"
    by (simp_all add: len)
  then have ish: "ish = 1" unfolding T' Pl' by (cases "0 < ish"; cases "1 < ish") simp_all
  from near have n2: "\<bar>choked_field sample_relations short_nozzle ! ish - Msh\<bar>
            \<le> \<bar>choked_field sample_relations short_nozzle ! 2 - Msh\<bar>"
    by (simp add: len)
  from cfn have c1: "choked_field sample_relations short_nozzle ! ish
           = MachSub_Sigma sample_relations (nz_AxoAc short_nozzle ! ish) (nz_gamma short_nozzle)"
    by (simp add: len ish it)
  from r short_set_NPR_shock it cf Ms Ms' ish n2 [unfolded Msh Pl] c1 show ?thesis by blast
qed

section \<open>Total pressure along the nozzle\<close>

lemma step_nonincreasing:
  fixes c :: real
  assumes "k < n"
  shows "(\<forall>i j. i \<le> j \<and> j < n \<longrightarrow>
            (replicate k 1 @ replicate (n - k) c) ! j \<le> (replicate k 1 @ replicate (n - k) c) ! i)
         = (k = 0 \<or> c \<le> 1)"
proof
  assume h: "\<forall>i j. i \<le> j \<and> j < n \<longrightarrow>
            (replicate k 1 @ replicate (n - k) c) ! j \<le> (replicate k 1 @ replicate (n - k) c) ! i"
  show "k = 0 \<or> c \<le> 1"
  proof (cases "k = 0")
    case False
    with h [rule_format, of 0 k] assms show ?thesis by (simp add: nth_append)
  qed simp
next
  assume "k = 0 \<or> c \<le> 1"
  then show "\<forall>i j. i \<le> j \<and> j < n \<longrightarrow>
            (replicate k 1 @ replicate (n - k) c) ! j \<le> (replicate k 1 @ replicate (n - k) c) ! i"
    using assms by (auto simp add: nth_append)
qed

text \<open>
  C6. What \<^verbatim>\<open>set_NPR\<close> leaves in \<^verbatim>\<open>_Pt\<close>: all ones when NPR < NPR0 or NPR \<open>\<ge>\<close> NPRsw;
  when NPR0 \<open>\<le>\<close> NPR < NPRsw, ones before the shock index and Ptloss from it on, where the
  shock index is searched in the whole candidate field, the stations up to the throat
  included. So Ptot at the throat is Ptloss, not 1, as soon as the search returns an
  index at or before the throat; and Ptot is non-increasing exactly when the shock index
  is 0 or Ptloss \<open>\<le>\<close> 1.
\<close>
theorem set_NPR_Ptot_at_throat:
  assumes "nozzle_init L dg x section AsoAc gamma NPR_init ref_rttot scale_ps = Inr n"
    and "set_NPR L dg n NPR = Inr n'"
  shows "\<exists>T. Ptot n' = Inr T \<and> length T = length section \<and> nz_ithroat n < length T
    \<and> (NPR < nz_NPR0 n \<or> nz_NPRsw n \<le> NPR \<longrightarrow> T = replicate (length section) 1)
    \<and> (nz_NPR0 n \<le> NPR \<and> NPR < nz_NPRsw n \<longrightarrow>
        (\<exists>Ms ish. Ms_from_AsAc_NPR L dg (nz_AsoAc n) NPR = Inr Ms
          \<and> argmin (map (\<lambda>m. \<bar>m - Mn_Pi_ratio L (PtPs_Mach L Ms dg / NPR) dg\<bar>)
                (choked_field L n)) = Inr ish
          \<and> T = replicate ish 1 @ replicate (length section - ish) (PtPs_Mach L Ms dg / NPR)
          \<and> T ! nz_ithroat n = (if ish \<le> nz_ithroat n then PtPs_Mach L Ms dg / NPR else 1)
          \<and> ((\<forall>i j. i \<le> j \<and> j < length T \<longrightarrow> T ! j \<le> T ! i)
               = (ish = 0 \<or> PtPs_Mach L Ms dg / NPR \<le> 1))))"
proof -
  note len = length_AxoAc_init [OF assms(1)]
  from argmin_Inr(1) [OF nozzle_init_Inr(4) [OF assms(1)]] len
  have it: "nz_ithroat n < length section" by simp
  have ones: "map (\<lambda>_. 1 :: real) (nz_AxoAc n) = replicate (length section) 1"
    by (simp add: map_replicate_const len)
  consider (sub) "NPR < nz_NPR0 n"
    | (shock) "\<not> NPR < nz_NPR0 n" "NPR < nz_NPRsw n"
    | (sup) "\<not> NPR < nz_NPR0 n" "\<not> NPR < nz_NPRsw n"
    by blast
  then show ?thesis
  proof cases
    case sub
    from assms(2) set_NPR_subsonic [OF sub, of L dg]
    have "nz_Pt n' = Some (replicate (length section) 1)" by (auto simp add: ones)
    then show ?thesis using sub it by (simp add: Ptot_def)
  next
    case sup
    from assms(2) set_NPR_supersonic [OF sup, of L dg]
    have "nz_Pt n' = Some (replicate (length section) 1)" by (auto simp add: ones)
    then show ?thesis using sup it by (simp add: Ptot_def)
  next
    case shock
    from set_NPR_shock [OF shock assms(2)] obtain Ms ish where
      Ms: "Ms_from_AsAc_NPR L dg (nz_AsoAc n) NPR = Inr Ms"
      and ish: "argmin (map (\<lambda>m. \<bar>m - Mn_Pi_ratio L (PtPs_Mach L Ms dg / NPR) dg\<bar>) (choked_field L n))
              = Inr ish"
      and n': "n' = n
      \<lparr>nz_Pt := Some (take ish (map (\<lambda>_. 1) (nz_AxoAc n))
                 @ replicate (length (nz_AxoAc n) - ish) (PtPs_Mach L Ms dg / NPR)),
       nz_M := Some (take ish (choked_field L n)
                 @ map (\<lambda>a. MachSub_Sigma L (a * Sigma_Mach L Ms dg / nz_AsoAc n) dg)
                     (drop ish (nz_AxoAc n))),
       nz_Ps := Some (map2 (\<lambda>p m. p / PtPs_Mach L m dg)
                 (take ish (map (\<lambda>_. 1) (nz_AxoAc n))
                    @ replicate (length (nz_AxoAc n) - ish) (PtPs_Mach L Ms dg / NPR))
                 (take ish (choked_field L n)
                    @ map (\<lambda>a. MachSub_Sigma L (a * Sigma_Mach L Ms dg / nz_AsoAc n) dg)
                        (drop ish (nz_AxoAc n))))\<rparr>"
      by blast
    from argmin_Inr(1) [OF ish] len have ilt: "ish < length section" by simp
    define T where "T = replicate ish (1::real)
        @ replicate (length section - ish) (PtPs_Mach L Ms dg / NPR)"
    have Pt: "nz_Pt n' = Some T"
      unfolding n' T_def using ilt by (simp add: ones len min_def)
    have lT: "length T = length section" using ilt by (simp add: T_def)
    have "T ! nz_ithroat n = (if ish \<le> nz_ithroat n then PtPs_Mach L Ms dg / NPR else 1)"
      using it ilt by (auto simp add: T_def nth_append)
    moreover have "(\<forall>i j. i \<le> j \<and> j < length T \<longrightarrow> T ! j \<le> T ! i)
               = (ish = 0 \<or> PtPs_Mach L Ms dg / NPR \<le> 1)"
      unfolding lT unfolding T_def using ilt by (rule step_nonincreasing)
    ultimately show ?thesis using Pt lT it Ms ish T_def shock by (auto simp add: Ptot_def)
  qed
qed

text \<open>
  The three-station nozzle [2, 1, 2] with the sample relations at NPR = 7452/3025: the
  station nearest to Msh is the throat and Ptot there is 1375/1863.
\<close>
theorem set_NPR_Ptot_at_throat_witness:
  "nozzle_init sample_relations (14 / 10) [0, 1, 2] [2, 1, 2] None (14 / 10) None 1 1
     = Inr short_nozzle
   \<and> set_NPR sample_relations (14 / 10) short_nozzle (7452 / 3025) = Inr (short_nozzle
       \<lparr>nz_Pt := Some [1, 1375 / 1863, 1375 / 1863], nz_M := Some [1 / 2, 15 / 11, 15 / 22],
        nz_Ps := Some [5 / 8, 15125 / 54027, 3025 / 7452]\<rparr>)
   \<and> nz_NPR0 short_nozzle \<le> 7452 / 3025 \<and> 7452 / 3025 < nz_NPRsw short_nozzle
   \<and> nz_ithroat short_nozzle = 1
   \<and> (\<exists>T. Ptot (short_nozzle
       \<lparr>nz_Pt := Some [1, 1375 / 1863, 1375 / 1863], nz_M := Some [1 / 2, 15 / 11, 15 / 22],
        nz_Ps := Some [5 / 8, 15125 / 54027, 3025 / 7452]\<rparr>) = Inr T
        \<and> T = [1, 1375 / 1863, 1375 / 1863] \<and> length T = 3
        \<and> T ! nz_ithroat short_nozzle \<noteq> 1
        \<and> (\<exists>Ms ish. Ms_from_AsAc_NPR sample_relations (14 / 10) (nz_AsoAc short_nozzle)
                (7452 / 3025) = Inr Ms
            \<and> T = replicate ish 1 @ replicate (length [2, 1, 2 :: real] - ish)
                  (PtPs_Mach sample_relations Ms (14 / 10) / (7452 / 3025))
            \<and> T ! nz_ithroat short_nozzle
                = (if ish \<le> nz_ithroat short_nozzle
                   then PtPs_Mach sample_relations Ms (14 / 10) / (7452 / 3025) else 1)))"
proof -
  have r: "nz_NPR0 short_nozzle \<le> 7452 / 3025 \<and> 7452 / 3025 < nz_NPRsw short_nozzle"
    by (simp add: short_nozzle_def)
  have it: "nz_ithroat short_nozzle = 1" by (simp add: short_nozzle_def)
  from set_NPR_Ptot_at_throat [OF short_nozzle_init short_set_NPR_shock] obtain T where
    T: "Ptot (short_nozzle
       \<lparr>nz_Pt := Some [1, 1375 / 1863, 1375 / 1863], nz_M := Some [1 / 2, 15 / 11, 15 / 22],
        nz_Ps := Some [5 / 8, 15125 / 54027, 3025 / 7452]\<rparr>) = Inr T"
    and sh: "nz_NPR0 short_nozzle \<le> 7452 / 3025 \<and> 7452 / 3025 < nz_NPRsw short_nozzle \<longrightarrow>
        (\<exists>Ms ish. Ms_from_AsAc_NPR sample_relations (14 / 10) (nz_AsoAc short_nozzle)
                (7452 / 3025) = Inr Ms
          \<and> argmin (map (\<lambda>m. \<bar>m - Mn_Pi_ratio sample_relations
                (PtPs_Mach sample_relations Ms (14 / 10) / (7452 / 3025)) (14 / 10)\<bar>)
                (choked_field sample_relations short_nozzle)) = Inr ish
          \<and> T = replicate ish 1 @ replicate (length [2, 1, 2 :: real] - ish)
                  (PtPs_Mach sample_relations Ms (14 / 10) / (7452 / 3025))
          \<and> T ! nz_ithroat short_nozzle
                = (if ish \<le> nz_ithroat short_nozzle
                   then PtPs_Mach sample_relations Ms (14 / 10) / (7452 / 3025) else 1))"
    by blast
  from T have T': "T = [1, 1375 / 1863, 1375 / 1863]" by (simp add: Ptot_def)
  then have l: "length T = 3" and ne: "T ! nz_ithroat short_nozzle \<noteq> 1" by (simp_all add: it)
  from sh r have "\<exists>Ms ish. Ms_from_AsAc_NPR sample_relations (14 / 10) (nz_AsoAc short_nozzle)
                (7452 / 3025) = Inr Ms
            \<and> T = replicate ish 1 @ replicate (length [2, 1, 2 :: real] - ish)
                  (PtPs_Mach sample_relations Ms (14 / 10) / (7452 / 3025))
            \<and> T ! nz_ithroat short_nozzle
                = (if ish \<le> nz_ithroat short_nozzle
                   then PtPs_Mach sample_relations Ms (14 / 10) / (7452 / 3025) else 1)"
    by blast
  with short_nozzle_init short_set_NPR_shock r it T T' l ne show ?thesis by blast
qed

section \<open>Which gamma the constructor and the field use\<close>

lemma map2_ones:
  "length ys = length xs \<Longrightarrow>
     map2 (\<lambda>p m. p / f m) (map (\<lambda>_. 1 :: real) xs) ys = map (\<lambda>m. 1 / f m) ys"
  by (rule nth_equalityI) simp_all

text \<open>
  C8. The thresholds that \<^verbatim>\<open>__init__\<close> stores are \<^verbatim>\<open>_NPR_Ms_list(AsoAc)\<close> evaluated
  with the default gas: they depend on \<open>dg\<close> and not on the \<^verbatim>\<open>gamma\<close> argument, which is
  only stored. Likewise in the choked, shock-free regime the Mach array is computed
  with the stored gamma and the static pressure from it with the default gas.
\<close>
theorem nozzle_init_thresholds_from_default_gas:
  assumes "nozzle_init L dg x section AsoAc gamma NPR_init ref_rttot scale_ps = Inr n"
  shows "(nz_NPR0 n, nz_NPRsw n, nz_NPR1 n, nz_Msub n, nz_Msh n, nz_Msup n)
        = NPR_Ms_list L dg (nz_AsoAc n)
    \<and> nz_AsoAc n = (if truthy AsoAc then the AsoAc else last section / min_list section)
    \<and> nz_gamma n = gamma
    \<and> (\<forall>v n'. nz_NPR0 n \<le> v \<and> nz_NPRsw n \<le> v \<and> set_NPR L dg n v = Inr n' \<longrightarrow>
          nz_M n' = Some (choked_field L n)
        \<and> nz_Ps n' = Some (map (\<lambda>m. 1 / PtPs_Mach L m dg) (choked_field L n)))"
proof -
  note i = nozzle_init_Inr [OF assms]
  have "nz_M n' = Some (choked_field L n)
        \<and> nz_Ps n' = Some (map (\<lambda>m. 1 / PtPs_Mach L m dg) (choked_field L n))"
    if "nz_NPR0 n \<le> v \<and> nz_NPRsw n \<le> v \<and> set_NPR L dg n v = Inr n'" for v n'
  proof -
    from that have "\<not> v < nz_NPR0 n" and "\<not> v < nz_NPRsw n" by simp_all
    from set_NPR_supersonic [OF this, of L dg] that show ?thesis
      by (auto simp add: map2_ones)
  qed
  with i(2,5,6) show ?thesis by simp
qed

lemma offdesign_init_1:
  "nozzle_init sample_relations (14 / 10) [0, 1, 2] [2, 1, 2] None (13 / 10) None 1 1
     = Inr (short_nozzle\<lparr>nz_gamma := 13 / 10\<rparr>)"
  by (simp add: nozzle_init_def argmin_def sample_thresholds short_nozzle_def Let_def)

lemma offdesign_init_2:
  "nozzle_init sample_relations (5 / 3) [0, 1, 2] [2, 1, 2] None (13 / 10) None 1 1
     = Inr (short_nozzle\<lparr>nz_gamma := 13 / 10, nz_NPR0 := 5 / 3, nz_NPRsw := 10 / 3,
              nz_NPR1 := 11 / 3\<rparr>)"
  by (simp add: nozzle_init_def argmin_def sample_thresholds short_nozzle_def Let_def)

lemma offdesign_set_NPR:
  "set_NPR sample_relations (14 / 10) (short_nozzle\<lparr>nz_gamma := 13 / 10\<rparr>) 4
     = Inr (short_nozzle\<lparr>nz_gamma := 13 / 10, nz_Pt := Some [1, 1, 1],
              nz_M := Some [1 / 2, 1, 2], nz_Ps := Some [5 / 8, 5 / 11, 5 / 17]\<rparr>)"
  by (simp add: set_NPR_def choked_field_def short_nozzle_def sample_relations_def Let_def)

text \<open>
  The same call, \<^verbatim>\<open>gamma=1.3\<close>, under a default gamma of 1.4 and of 5/3: the thresholds
  differ and are those of the default gas.
\<close>
theorem nozzle_init_thresholds_from_default_gas_witness:
  "nozzle_init sample_relations (14 / 10) [0, 1, 2] [2, 1, 2] None (13 / 10) None 1 1
     = Inr (short_nozzle\<lparr>nz_gamma := 13 / 10\<rparr>)
   \<and> nozzle_init sample_relations (5 / 3) [0, 1, 2] [2, 1, 2] None (13 / 10) None 1 1
     = Inr (short_nozzle\<lparr>nz_gamma := 13 / 10, nz_NPR0 := 5 / 3, nz_NPRsw := 10 / 3,
              nz_NPR1 := 11 / 3\<rparr>)
   \<and> NPR_Ms_list sample_relations (14 / 10) 2 = (16 / 10, 32 / 10, 34 / 10, 1 / 2, 1 / 2, 2)
   \<and> NPR_Ms_list sample_relations (5 / 3) 2 = (5 / 3, 10 / 3, 11 / 3, 1 / 2, 1 / 2, 2)
   \<and> nz_gamma (short_nozzle\<lparr>nz_gamma := 13 / 10\<rparr>) = 13 / 10
   \<and> nz_gamma (short_nozzle\<lparr>nz_gamma := 13 / 10, nz_NPR0 := 5 / 3, nz_NPRsw := 10 / 3,
              nz_NPR1 := 11 / 3\<rparr>) = 13 / 10
   \<and> set_NPR sample_relations (14 / 10) (short_nozzle\<lparr>nz_gamma := 13 / 10\<rparr>) 4
     = Inr (short_nozzle\<lparr>nz_gamma := 13 / 10, nz_Pt := Some [1, 1, 1],
              nz_M := Some [1 / 2, 1, 2], nz_Ps := Some [5 / 8, 5 / 11, 5 / 17]\<rparr>)
   \<and> nz_Ps (short_nozzle\<lparr>nz_gamma := 13 / 10, nz_Pt := Some [1, 1, 1],
              nz_M := Some [1 / 2, 1, 2], nz_Ps := Some [5 / 8, 5 / 11, 5 / 17]\<rparr>)
     = Some (map (\<lambda>m. 1 / PtPs_Mach sample_relations m (14 / 10))
         (choked_field sample_relations (short_nozzle\<lparr>nz_gamma := 13 / 10\<rparr>)))"
proof -
  have q: "nz_NPR0 (short_nozzle\<lparr>nz_gamma := 13 / 10\<rparr>) \<le> 4
      \<and> nz_NPRsw (short_nozzle\<lparr>nz_gamma := 13 / 10\<rparr>) \<le> 4
      \<and> set_NPR sample_relations (14 / 10) (short_nozzle\<lparr>nz_gamma := 13 / 10\<rparr>) 4
        = Inr (short_nozzle\<lparr>nz_gamma := 13 / 10, nz_Pt := Some [1, 1, 1],
              nz_M := Some [1 / 2, 1, 2], nz_Ps := Some [5 / 8, 5 / 11, 5 / 17]\<rparr>)"
    using offdesign_set_NPR by (simp add: short_nozzle_def)
  note a = nozzle_init_thresholds_from_default_gas [OF offdesign_init_1]
  note b = nozzle_init_thresholds_from_default_gas [OF offdesign_init_2]
  from a [THEN conjunct1] have 1:
    "NPR_Ms_list sample_relations (14 / 10) 2 = (16 / 10, 32 / 10, 34 / 10, 1 / 2, 1 / 2, 2)"
    by (simp add: short_nozzle_def)
  from b [THEN conjunct1] have 2:
    "NPR_Ms_list sample_relations (5 / 3) 2 = (5 / 3, 10 / 3, 11 / 3, 1 / 2, 1 / 2, 2)"
    by (simp add: short_nozzle_def)
  from a have 3: "nz_gamma (short_nozzle\<lparr>nz_gamma := 13 / 10\<rparr>) = 13 / 10" by blast
  from b have 4: "nz_gamma (short_nozzle\<lparr>nz_gamma := 13 / 10, nz_NPR0 := 5 / 3,
      nz_NPRsw := 10 / 3, nz_NPR1 := 11 / 3\<rparr>) = 13 / 10" by blast
  from a [THEN conjunct2, THEN conjunct2, THEN conjunct2, rule_format, OF q]
  have 5: "nz_Ps (short_nozzle\<lparr>nz_gamma := 13 / 10, nz_Pt := Some [1, 1, 1],
              nz_M := Some [1 / 2, 1, 2], nz_Ps := Some [5 / 8, 5 / 11, 5 / 17]\<rparr>)
     = Some (map (\<lambda>m. 1 / PtPs_Mach sample_relations m (14 / 10))
         (choked_field sample_relations (short_nozzle\<lparr>nz_gamma := 13 / 10\<rparr>)))"
    by blast
  from offdesign_init_1 offdesign_init_2 1 2 3 4 5 offdesign_set_NPR show ?thesis by blast
qed

end
